theory Spec2Isabelle
  imports Complex_Main
begin

section \<open>Order fulfilment engine of nest-ecommerce: data model\<close>

text \<open>
  The embedding follows the TypeORM entities and the services that act on them.
  Tables are lists of rows; a query is a filter over the rows, an \<open>UPDATE ... WHERE\<close> is a
  map over them. Primary keys (uuid strings in the source) are natural numbers here.
  JavaScript numbers that hold money are exact rationals; integer columns are \<open>int\<close>.
\<close>

type_synonym uuid = nat

subsection \<open>Enumerations (order.entity.ts, payment.entity.ts, product.entity.ts, coupon.entity.ts)\<close>

datatype OrderStatus =
  PENDING | CONFIRMED | PROCESSING | SHIPPED | DELIVERED | CANCELLED | REFUNDED | RETURNED

datatype PaymentStatus =
  PAY_PENDING | PAY_PROCESSING | PAY_COMPLETED | PAY_FAILED | PAY_REFUNDED | PAY_CANCELLED

datatype PaymentMethod =
  CREDIT_CARD | DEBIT_CARD | PAYPAL | BANK_TRANSFER | STRIPE | CASH_ON_DELIVERY

datatype ProductStatus = DRAFT | ACTIVE | INACTIVE | ARCHIVED

datatype DiscountType = PERCENTAGE | FIXED_AMOUNT

datatype CouponStatus = COUPON_ACTIVE | COUPON_INACTIVE | COUPON_EXPIRED

subsection \<open>Entities (database/entities/*.entity.ts)\<close>

text \<open>Nullable columns are options; \<open>Date\<close> values are clock readings (natural numbers).\<close>

record Address =
  a_firstName :: string
  a_lastName :: string
  a_street :: string
  a_city :: string
  a_state :: string
  a_zipCode :: string
  a_country :: string
  a_phone :: string

record Product =
  p_id :: uuid
  p_sku :: string
  p_name :: string
  p_price :: rat
  p_salePrice :: "rat option"
  p_stock :: int
  p_status :: ProductStatus
  p_images :: "string list"
  p_soldCount :: int

record ProductVariant =
  v_id :: uuid
  v_productId :: uuid
  v_sku :: string
  v_name :: string
  v_price :: rat
  v_salePrice :: "rat option"
  v_stock :: int
  v_active :: bool

record CartItem =
  c_id :: uuid
  c_userId :: uuid
  c_productId :: uuid
  c_variantId :: "uuid option"
  c_quantity :: int

text \<open>A cart item as \<open>find\<close> returns it with \<open>relations: ["product", "variant"]\<close>.\<close>

record CartItemRel = CartItem +
  c_product :: "Product option"
  c_variant :: "ProductVariant option"

text \<open>The object that \<open>JSON.stringify\<close> freezes into \<open>productSnapshot\<close>.\<close>

record ProductSnapshot =
  ps_name :: string
  ps_image :: "string option"
  ps_variant :: "string option"

text \<open>\<open>Partial<OrderItem>\<close> as the checkout loop builds it, before the row has an id and an order.\<close>

record OrderItemDraft =
  i_productId :: uuid
  i_variantId :: "uuid option"
  i_name :: string
  i_sku :: string
  i_unitPrice :: rat
  i_quantity :: int
  i_total :: rat
  i_productSnapshot :: ProductSnapshot

record OrderItem = OrderItemDraft +
  i_id :: uuid
  i_orderId :: uuid

text \<open>An order item with its \<open>product\<close> and \<open>variant\<close> relations joined in.\<close>

record OrderItemRel = OrderItem +
  i_product :: "Product option"
  i_variant :: "ProductVariant option"

record Order =
  o_id :: uuid
  o_orderNumber :: string
  o_userId :: uuid
  o_status :: OrderStatus
  o_subtotal :: rat
  o_discount :: rat
  o_tax :: rat
  o_shippingCost :: rat
  o_total :: rat
  o_shippingAddress :: Address
  o_billingAddress :: Address
  o_notes :: "string option"
  o_trackingNumber :: "string option"
  o_shippedAt :: "nat option"
  o_deliveredAt :: "nat option"
  o_cancelledAt :: "nat option"
  o_cancellationReason :: "string option"

record Payment =
  pay_id :: uuid
  pay_orderId :: uuid
  pay_amount :: rat
  pay_currency :: string
  pay_paymentMethod :: PaymentMethod
  pay_paymentStatus :: PaymentStatus
  pay_description :: "string option"
  pay_refundedAt :: "nat option"
  pay_refundReason :: "string option"

record Coupon =
  cp_id :: uuid
  cp_code :: string
  cp_discountType :: DiscountType
  cp_discountValue :: rat
  cp_minOrderAmount :: rat
  cp_maxUses :: int
  cp_usedCount :: int
  cp_maxUsesPerUser :: int
  cp_validFrom :: "nat option"
  cp_validUntil :: "nat option"
  cp_status :: CouponStatus
  cp_applicableCategories :: "uuid list"
  cp_applicableProducts :: "uuid list"
  cp_freeShipping :: bool

text \<open>An order as \<open>findOne\<close> returns it: the row with its items and payments joined in.\<close>

record OrderRel = Order +
  o_items :: "OrderItemRel list"
  o_payments :: "Payment list"

subsection \<open>The database, requests, configuration and errors\<close>

record DB =
  productRows :: "Product list"
  variantRows :: "ProductVariant list"
  cartItemRows :: "CartItem list"
  orderRows :: "Order list"
  orderItemRows :: "OrderItem list"
  paymentRows :: "Payment list"
  couponRows :: "Coupon list"

record CreateOrderDto =
  dto_shippingAddress :: Address
  dto_billingAddress :: "Address option"
  dto_notes :: "string option"
  dto_paymentMethod :: "PaymentMethod option"
  dto_couponCode :: "string option"

record AddToCartDto =
  atc_productId :: uuid
  atc_variantId :: "uuid option"
  atc_quantity :: int

text \<open>The three keys \<open>ConfigService.get\<close> is asked for, with the defaults of the calls.\<close>

record Config =
  TAX_RATE :: rat
  SHIPPING_COST :: rat
  FREE_SHIPPING_THRESHOLD :: rat

definition defaultConfig :: Config where
  "defaultConfig = \<lparr>TAX_RATE = 8 / 100, SHIPPING_COST = 10, FREE_SHIPPING_THRESHOLD = 100\<rparr>"

text \<open>
  Every \<open>throw\<close> of the services is a constructor; the data a message interpolates is
  carried as arguments. \<open>StorageFailure\<close> is an exception raised by the storage layer itself.
\<close>

datatype error =
    CartIsEmpty
  | ProductNotAvailable uuid
  | InsufficientStock int
  | OrderNotFound
  | OrderCannotBeCancelled
  | CannotTransition OrderStatus OrderStatus
  | ProductNotFound
  | ProductVariantNotFound
  | InvalidCouponCode
  | CouponNotActive
  | CouponNotYetValid
  | CouponExpired
  | CouponUsageLimitReached
  | CouponMinimumOrderAmount rat
  | CouponUserLimitReached
  | CouponNotApplicable
  | StorageFailure

text \<open>
  The rows whose stock a cart line or an order item draws on, and the calls on the
  transaction's entity manager. A fault oracle says which of these calls throw.
\<close>

datatype StockRow = VariantRow uuid | ProductRow uuid

datatype StorageOp =
    FindCartItems
  | DecrementStock StockRow
  | IncrementStock StockRow
  | IncrementSoldCount uuid
  | DecrementSoldCount uuid
  | SaveOrder
  | SaveOrderItems
  | SavePayment
  | DeleteCartItems
  | CommitTransaction

type_synonym faults = "StorageOp \<Rightarrow> bool"

definition noFaults :: faults where
  "noFaults = (\<lambda>_. False)"

definition bindE :: "error + 'a \<Rightarrow> ('a \<Rightarrow> error + 'b) \<Rightarrow> error + 'b" where
  "bindE m f = (case m of Inl e \<Rightarrow> Inl e | Inr x \<Rightarrow> f x)"

text \<open>An awaited call on the entity manager: it throws when the oracle says so.\<close>

definition storage :: "faults \<Rightarrow> StorageOp \<Rightarrow> 'a \<Rightarrow> error + 'a" where
  "storage fails opn x = (if fails opn then Inl StorageFailure else Inr x)"

text \<open>\<open>Math.round(x * 100) / 100\<close>; \<open>Math.round\<close> rounds halves towards plus infinity.\<close>

definition Math_round :: "rat \<Rightarrow> int" where
  "Math_round x = \<lfloor>x + 1 / 2\<rfloor>"

definition round2 :: "rat \<Rightarrow> rat" where
  "round2 x = of_int (Math_round (x * 100)) / 100"

text \<open>A generated primary key: one that no row of the table carries.\<close>

definition freshId :: "uuid list \<Rightarrow> uuid" where
  "freshId ids = Suc (foldr max ids 0)"

section \<open>Order status state machine (common/utils/order-status.util.ts)\<close>

fun ORDER_STATUS_TRANSITIONS :: "OrderStatus \<Rightarrow> OrderStatus list" where
  "ORDER_STATUS_TRANSITIONS PENDING = [CONFIRMED, CANCELLED]"
| "ORDER_STATUS_TRANSITIONS CONFIRMED = [PROCESSING, CANCELLED]"
| "ORDER_STATUS_TRANSITIONS PROCESSING = [SHIPPED, CANCELLED]"
| "ORDER_STATUS_TRANSITIONS SHIPPED = [DELIVERED]"
| "ORDER_STATUS_TRANSITIONS DELIVERED = [RETURNED]"
| "ORDER_STATUS_TRANSITIONS CANCELLED = []"
| "ORDER_STATUS_TRANSITIONS REFUNDED = []"
| "ORDER_STATUS_TRANSITIONS RETURNED = []"

text \<open>\<open>Array.prototype.includes\<close> on a list of enum values.\<close>

definition array_includes :: "'a list \<Rightarrow> 'a \<Rightarrow> bool" where
  "array_includes xs x = (x \<in> set xs)"

definition canTransition :: "OrderStatus \<Rightarrow> OrderStatus \<Rightarrow> bool" where
  "canTransition currentStatus newStatus =
     (let allowedTransitions = ORDER_STATUS_TRANSITIONS currentStatus
      in array_includes allowedTransitions newStatus \<or> currentStatus = newStatus)"

definition getValidTransitions :: "OrderStatus \<Rightarrow> OrderStatus list" where
  "getValidTransitions currentStatus = ORDER_STATUS_TRANSITIONS currentStatus"

definition isFinalStatus :: "OrderStatus \<Rightarrow> bool" where
  "isFinalStatus status = (length (ORDER_STATUS_TRANSITIONS status) = 0)"

text \<open>The eight directed edges the specification lists.\<close>

definition legal_edges :: "(OrderStatus \<times> OrderStatus) list" where
  "legal_edges =
     [(PENDING, CONFIRMED), (PENDING, CANCELLED),
      (CONFIRMED, PROCESSING), (CONFIRMED, CANCELLED),
      (PROCESSING, SHIPPED), (PROCESSING, CANCELLED),
      (SHIPPED, DELIVERED), (DELIVERED, RETURNED)]"

section \<open>Storage primitives\<close>

definition findProduct :: "DB \<Rightarrow> uuid \<Rightarrow> Product option" where
  "findProduct db pid = find (\<lambda>p. p_id p = pid) (productRows db)"

definition findVariant :: "DB \<Rightarrow> uuid option \<Rightarrow> ProductVariant option" where
  "findVariant db vid =
     (case vid of None \<Rightarrow> None | Some v \<Rightarrow> find (\<lambda>r. v_id r = v) (variantRows db))"

definition loadCartItem :: "DB \<Rightarrow> CartItem \<Rightarrow> CartItemRel" where
  "loadCartItem db c =
     CartItem.extend c
       (CartItemRel.fields (findProduct db (c_productId c)) (findVariant db (c_variantId c)))"

text \<open>\<open>manager.find(CartItem, { where: { userId }, relations: ["product", "variant"] })\<close>\<close>

definition findCartItems :: "DB \<Rightarrow> uuid \<Rightarrow> CartItemRel list" where
  "findCartItems db userId =
     map (loadCartItem db) (filter (\<lambda>c. c_userId c = userId) (cartItemRows db))"

text \<open>
  \<open>manager.increment\<close> and \<open>manager.decrement\<close> on the \<open>stock\<close> and \<open>soldCount\<close> columns:
  one \<open>UPDATE\<close> over the rows with the given id, with no check of the result.
\<close>

fun incrementStock :: "StockRow \<Rightarrow> int \<Rightarrow> DB \<Rightarrow> DB" where
  "incrementStock (VariantRow vid) n db =
     db\<lparr>variantRows := map (\<lambda>v. if v_id v = vid then v\<lparr>v_stock := v_stock v + n\<rparr> else v) (variantRows db)\<rparr>"
| "incrementStock (ProductRow pid) n db =
     db\<lparr>productRows := map (\<lambda>p. if p_id p = pid then p\<lparr>p_stock := p_stock p + n\<rparr> else p) (productRows db)\<rparr>"

fun decrementStock :: "StockRow \<Rightarrow> int \<Rightarrow> DB \<Rightarrow> DB" where
  "decrementStock (VariantRow vid) n db =
     db\<lparr>variantRows := map (\<lambda>v. if v_id v = vid then v\<lparr>v_stock := v_stock v - n\<rparr> else v) (variantRows db)\<rparr>"
| "decrementStock (ProductRow pid) n db =
     db\<lparr>productRows := map (\<lambda>p. if p_id p = pid then p\<lparr>p_stock := p_stock p - n\<rparr> else p) (productRows db)\<rparr>"

definition incrementSoldCount :: "uuid \<Rightarrow> int \<Rightarrow> DB \<Rightarrow> DB" where
  "incrementSoldCount pid n db =
     db\<lparr>productRows :=
          map (\<lambda>p. if p_id p = pid then p\<lparr>p_soldCount := p_soldCount p + n\<rparr> else p) (productRows db)\<rparr>"

definition decrementSoldCount :: "uuid \<Rightarrow> int \<Rightarrow> DB \<Rightarrow> DB" where
  "decrementSoldCount pid n db =
     db\<lparr>productRows :=
          map (\<lambda>p. if p_id p = pid then p\<lparr>p_soldCount := p_soldCount p - n\<rparr> else p) (productRows db)\<rparr>"

text \<open>\<open>save\<close> of an entity that has an id rewrites the row with that id.\<close>

definition saveOrder :: "Order \<Rightarrow> DB \<Rightarrow> DB" where
  "saveOrder order db =
     db\<lparr>orderRows := map (\<lambda>r. if o_id r = o_id order then order else r) (orderRows db)\<rparr>"

definition savePayment :: "Payment \<Rightarrow> DB \<Rightarrow> DB" where
  "savePayment payment db =
     db\<lparr>paymentRows := map (\<lambda>p. if pay_id p = pay_id payment then payment else p) (paymentRows db)\<rparr>"

text \<open>\<open>save\<close> of new entities inserts rows under generated ids.\<close>

fun assignIds :: "uuid \<Rightarrow> uuid \<Rightarrow> OrderItemDraft list \<Rightarrow> OrderItem list" where
  "assignIds orderId n [] = []"
| "assignIds orderId n (d # ds) =
     OrderItemDraft.extend d (OrderItem.fields n orderId) # assignIds orderId (Suc n) ds"

definition insertOrderItems :: "uuid \<Rightarrow> OrderItemDraft list \<Rightarrow> DB \<Rightarrow> DB" where
  "insertOrderItems orderId drafts db =
     db\<lparr>orderItemRows :=
          orderItemRows db @ assignIds orderId (freshId (map i_id (orderItemRows db))) drafts\<rparr>"

definition deleteCartItems :: "uuid \<Rightarrow> DB \<Rightarrow> DB" where
  "deleteCartItems userId db =
     db\<lparr>cartItemRows := filter (\<lambda>c. c_userId c \<noteq> userId) (cartItemRows db)\<rparr>"

section \<open>OrdersService (modules/orders/orders.service.ts)\<close>

subsection \<open>findOne\<close>

definition loadOrderItem :: "DB \<Rightarrow> OrderItem \<Rightarrow> OrderItemRel" where
  "loadOrderItem db it =
     OrderItem.extend it
       (OrderItemRel.fields (findProduct db (i_productId it)) (findVariant db (i_variantId it)))"

definition loadOrder :: "DB \<Rightarrow> Order \<Rightarrow> OrderRel" where
  "loadOrder db order =
     Order.extend order
       (OrderRel.fields
          (map (loadOrderItem db) (filter (\<lambda>i. i_orderId i = o_id order) (orderItemRows db)))
          (filter (\<lambda>p. pay_orderId p = o_id order) (paymentRows db)))"

definition findOne :: "DB \<Rightarrow> uuid \<Rightarrow> uuid option \<Rightarrow> error + OrderRel" where
  "findOne db orderId userId =
     (case find (\<lambda>r. o_id r = orderId \<and> (case userId of None \<Rightarrow> True | Some u \<Rightarrow> o_userId r = u))
             (orderRows db) of
        None \<Rightarrow> Inl OrderNotFound
      | Some order \<Rightarrow> Inr (loadOrder db order))"

subsection \<open>create\<close>

text \<open>The private \<open>applyCoupon\<close> of the orders service: its body is \<open>return 0\<close>.\<close>

definition applyCoupon :: "string \<Rightarrow> rat \<Rightarrow> error + rat" where
  "applyCoupon couponCode subtotal = Inr 0"

definition orderItemOf :: "CartItemRel \<Rightarrow> Product \<Rightarrow> rat \<Rightarrow> rat \<Rightarrow> OrderItemDraft" where
  "orderItemOf cartItem product price itemTotal =
     \<lparr>i_productId = c_productId cartItem,
      i_variantId = c_variantId cartItem,
      i_name = p_name product,
      i_sku = (case c_variant cartItem of Some v \<Rightarrow> v_sku v | None \<Rightarrow> p_sku product),
      i_unitPrice = price,
      i_quantity = c_quantity cartItem,
      i_total = itemTotal,
      i_productSnapshot =
        \<lparr>ps_name = p_name product,
         ps_image = (case p_images product of [] \<Rightarrow> None | img # _ \<Rightarrow> Some img),
         ps_variant = map_option v_name (c_variant cartItem)\<rparr>\<rparr>"

text \<open>\<open>variant?.stock ?? product.stock\<close>\<close>

definition availableStockOf :: "Product \<Rightarrow> ProductVariant option \<Rightarrow> int" where
  "availableStockOf product variant =
     (case variant of Some v \<Rightarrow> v_stock v | None \<Rightarrow> p_stock product)"

text \<open>
  The row whose stock a cart line draws on: \<open>if (cartItem.variant)\<close> the variant row,
  otherwise the product row. The loaded variant is the row whose id is \<open>cartItem.variantId\<close>.
\<close>

definition cartStockRow :: "CartItemRel \<Rightarrow> StockRow" where
  "cartStockRow cartItem =
     (case c_variant cartItem of
        Some v \<Rightarrow> VariantRow (v_id v)
      | None \<Rightarrow> ProductRow (c_productId cartItem))"

text \<open>
  The \<open>for (const cartItem of cartItems)\<close> loop of \<open>create\<close>. The cart items were loaded
  before the loop, so \<open>cartItem.product\<close> and \<open>cartItem.variant\<close> are the rows as they
  were then; the decrements go to the database.
\<close>

fun processCartItems ::
  "faults \<Rightarrow> CartItemRel list \<Rightarrow> OrderItemDraft list \<times> rat \<times> DB \<Rightarrow>
   error + (OrderItemDraft list \<times> rat \<times> DB)" where
  "processCartItems fails [] acc = Inr acc"
| "processCartItems fails (cartItem # rest) (orderItems, subtotal, db) =
     (case c_product cartItem of
        None \<Rightarrow> Inl (ProductNotAvailable (c_productId cartItem))
      | Some product \<Rightarrow>
          if p_status product \<noteq> ACTIVE then Inl (ProductNotAvailable (c_productId cartItem))
          else
            let price = (case c_variant cartItem of Some v \<Rightarrow> v_price v | None \<Rightarrow> p_price product);
                itemTotal = price * of_int (c_quantity cartItem);
                subtotal' = subtotal + itemTotal;
                available = availableStockOf product (c_variant cartItem)
            in
              if c_quantity cartItem > available then Inl (InsufficientStock available)
              else
                let orderItems' = orderItems @ [orderItemOf cartItem product price itemTotal];
                    row = cartStockRow cartItem
                in
                  bindE (storage fails (DecrementStock row)
                           (decrementStock row (c_quantity cartItem) db)) (\<lambda>db1.
                  bindE (storage fails (IncrementSoldCount (c_productId cartItem))
                           (incrementSoldCount (c_productId cartItem) (c_quantity cartItem) db1)) (\<lambda>db2.
                  processCartItems fails rest (orderItems', subtotal', db2))))"

text \<open>
  The body of the \<open>try\<close> block up to and including \<open>commitTransaction\<close>. The result is the
  id of the saved order and the database as committed. \<open>orderNumber\<close> stands for the
  string built from \<open>Date.now()\<close> and a uuid prefix.
\<close>

definition createTransaction ::
  "faults \<Rightarrow> Config \<Rightarrow> string \<Rightarrow> uuid \<Rightarrow> CreateOrderDto \<Rightarrow> DB \<Rightarrow> error + (uuid \<times> DB)" where
  "createTransaction fails cfg orderNumber userId createOrderDto db =
     bindE (storage fails FindCartItems (findCartItems db userId)) (\<lambda>cartItems.
     if length cartItems = 0 then Inl CartIsEmpty
     else
       bindE (processCartItems fails cartItems ([], 0, db)) (\<lambda>(orderItems, subtotal, db1).
       let taxRate = TAX_RATE cfg;
           shippingCost = SHIPPING_COST cfg;
           freeShippingThreshold = FREE_SHIPPING_THRESHOLD cfg;
           tax = round2 (subtotal * taxRate);
           finalShippingCost = (if subtotal \<ge> freeShippingThreshold then 0 else shippingCost)
       in
         bindE (case dto_couponCode createOrderDto of
                  None \<Rightarrow> Inr 0
                | Some code \<Rightarrow> if code = [] then Inr 0 else applyCoupon code subtotal) (\<lambda>discount.
         let total = round2 (subtotal + tax + shippingCost - discount);
             orderId = freshId (map o_id (orderRows db1));
             order =
               \<lparr>o_id = orderId,
                o_orderNumber = orderNumber,
                o_userId = userId,
                o_status = PENDING,
                o_subtotal = subtotal,
                o_discount = discount,
                o_tax = tax,
                o_shippingCost = finalShippingCost,
                o_total = total,
                o_shippingAddress = dto_shippingAddress createOrderDto,
                o_billingAddress =
                  (case dto_billingAddress createOrderDto of
                     Some b \<Rightarrow> b
                   | None \<Rightarrow> dto_shippingAddress createOrderDto),
                o_notes = dto_notes createOrderDto,
                o_trackingNumber = None,
                o_shippedAt = None,
                o_deliveredAt = None,
                o_cancelledAt = None,
                o_cancellationReason = None\<rparr>;
             payment =
               \<lparr>pay_id = freshId (map pay_id (paymentRows db1)),
                pay_orderId = orderId,
                pay_amount = total,
                pay_currency = ''USD'',
                pay_paymentMethod =
                  (case dto_paymentMethod createOrderDto of Some m \<Rightarrow> m | None \<Rightarrow> STRIPE),
                pay_paymentStatus = PAY_PENDING,
                pay_description = Some (''Payment for order '' @ orderNumber),
                pay_refundedAt = None,
                pay_refundReason = None\<rparr>
         in
           bindE (storage fails SaveOrder (db1\<lparr>orderRows := orderRows db1 @ [order]\<rparr>)) (\<lambda>db2.
           bindE (storage fails SaveOrderItems (insertOrderItems orderId orderItems db2)) (\<lambda>db3.
           bindE (storage fails SavePayment (db3\<lparr>paymentRows := paymentRows db3 @ [payment]\<rparr>)) (\<lambda>db4.
           bindE (storage fails DeleteCartItems (deleteCartItems userId db4)) (\<lambda>db5.
           bindE (storage fails CommitTransaction db5) (\<lambda>db6.
           Inr (orderId, db6)))))))))"

text \<open>
  \<open>create\<close>: when the \<open>try\<close> block throws, \<open>rollbackTransaction\<close> discards every write of
  the transaction and the error is rethrown; otherwise the committed order is read back.
\<close>

definition create ::
  "faults \<Rightarrow> Config \<Rightarrow> string \<Rightarrow> uuid \<Rightarrow> CreateOrderDto \<Rightarrow> DB \<Rightarrow> (error + OrderRel) \<times> DB" where
  "create fails cfg orderNumber userId createOrderDto db =
     (case createTransaction fails cfg orderNumber userId createOrderDto db of
        Inl e \<Rightarrow> (Inl e, db)
      | Inr (orderId, db') \<Rightarrow> (findOne db' orderId (Some userId), db'))"

subsection \<open>cancel\<close>

text \<open>
  The row an order item is restocked on: \<open>if (item.variant)\<close> the variant row, otherwise
  the product row.
\<close>

definition itemStockRow :: "OrderItemRel \<Rightarrow> StockRow" where
  "itemStockRow item =
     (case i_variant item of
        Some v \<Rightarrow> VariantRow (v_id v)
      | None \<Rightarrow> ProductRow (i_productId item))"

text \<open>The \<open>for (const item of order.items)\<close> loop of \<open>cancel\<close>.\<close>

fun restoreItems :: "faults \<Rightarrow> OrderItemRel list \<Rightarrow> DB \<Rightarrow> error + DB" where
  "restoreItems fails [] db = Inr db"
| "restoreItems fails (item # rest) db =
     (let row = itemStockRow item
      in
        bindE (storage fails (IncrementStock row)
                 (incrementStock row (i_quantity item) db)) (\<lambda>db1.
        bindE (storage fails (DecrementSoldCount (i_productId item))
                 (decrementSoldCount (i_productId item) (i_quantity item) db1)) (\<lambda>db2.
        restoreItems fails rest db2)))"

text \<open>\<open>reason || ""\<close>\<close>

definition reasonOrEmpty :: "string option \<Rightarrow> string" where
  "reasonOrEmpty reason = (case reason of None \<Rightarrow> [] | Some r \<Rightarrow> r)"

text \<open>The body of the \<open>try\<close> block of \<open>cancel\<close>, up to and including the commit.\<close>

definition cancelTransaction ::
  "faults \<Rightarrow> nat \<Rightarrow> string option \<Rightarrow> OrderRel \<Rightarrow> DB \<Rightarrow> error + DB" where
  "cancelTransaction fails now reason order db =
     bindE (restoreItems fails (o_items order) db) (\<lambda>db1.
     let order' = order\<lparr>o_status := CANCELLED,
                        o_cancelledAt := Some now,
                        o_cancellationReason := Some (reasonOrEmpty reason)\<rparr>
     in
       bindE (storage fails SaveOrder (saveOrder (Order.truncate order') db1)) (\<lambda>db2.
       bindE (if length (o_payments order') > 0 then
                (case find (\<lambda>p. pay_paymentStatus p = PAY_COMPLETED) (o_payments order') of
                   Some payment \<Rightarrow>
                     storage fails SavePayment
                       (savePayment (payment\<lparr>pay_paymentStatus := PAY_REFUNDED,
                                              pay_refundedAt := Some now,
                                              pay_refundReason := Some (reasonOrEmpty reason)\<rparr>) db2)
                 | None \<Rightarrow> Inr db2)
              else Inr db2) (\<lambda>db3.
       storage fails CommitTransaction db3)))"

definition cancel ::
  "faults \<Rightarrow> nat \<Rightarrow> uuid \<Rightarrow> uuid \<Rightarrow> string option \<Rightarrow> DB \<Rightarrow> (error + OrderRel) \<times> DB" where
  "cancel fails now userId orderId reason db =
     (case findOne db orderId (Some userId) of
        Inl e \<Rightarrow> (Inl e, db)
      | Inr order \<Rightarrow>
          if \<not> array_includes [PENDING, CONFIRMED] (o_status order)
          then (Inl OrderCannotBeCancelled, db)
          else
            (case cancelTransaction fails now reason order db of
               Inl e \<Rightarrow> (Inl e, db)
             | Inr db' \<Rightarrow> (findOne db' orderId None, db')))"

subsection \<open>updateStatus\<close>

record AdditionalData =
  ad_trackingNumber :: "string option"
  ad_notes :: "string option"

text \<open>The table that \<open>updateStatus\<close> declares locally.\<close>

fun statusTransitions :: "OrderStatus \<Rightarrow> OrderStatus list" where
  "statusTransitions PENDING = [CONFIRMED, CANCELLED]"
| "statusTransitions CONFIRMED = [PROCESSING, CANCELLED]"
| "statusTransitions PROCESSING = [SHIPPED, CANCELLED]"
| "statusTransitions SHIPPED = [DELIVERED]"
| "statusTransitions DELIVERED = [RETURNED]"
| "statusTransitions CANCELLED = []"
| "statusTransitions REFUNDED = []"
| "statusTransitions RETURNED = []"

text \<open>Truthiness of \<open>additionalData?.trackingNumber\<close>: present and not the empty string.\<close>

definition truthyField :: "AdditionalData option \<Rightarrow> (AdditionalData \<Rightarrow> string option) \<Rightarrow> string option" where
  "truthyField additionalData field =
     (case additionalData of
        None \<Rightarrow> None
      | Some d \<Rightarrow> (case field d of None \<Rightarrow> None | Some x \<Rightarrow> if x = [] then None else Some x))"

definition updateStatus ::
  "nat \<Rightarrow> uuid \<Rightarrow> OrderStatus \<Rightarrow> AdditionalData option \<Rightarrow> DB \<Rightarrow> (error + OrderRel) \<times> DB" where
  "updateStatus now orderId status additionalData db =
     (case findOne db orderId None of
        Inl e \<Rightarrow> (Inl e, db)
      | Inr order \<Rightarrow>
          if \<not> array_includes (statusTransitions (o_status order)) status \<and> o_status order \<noteq> status
          then (Inl (CannotTransition (o_status order) status), db)
          else
            let order1 = order\<lparr>o_status := status\<rparr>;
                order2 = (case truthyField additionalData ad_trackingNumber of
                            Some t \<Rightarrow> order1\<lparr>o_trackingNumber := Some t\<rparr>
                          | None \<Rightarrow> order1);
                order3 = (case truthyField additionalData ad_notes of
                            Some n \<Rightarrow> order2\<lparr>o_notes := Some n\<rparr>
                          | None \<Rightarrow> order2);
                order4 = (if status = SHIPPED then order3\<lparr>o_shippedAt := Some now\<rparr> else order3);
                order5 = (if status = DELIVERED then order4\<lparr>o_deliveredAt := Some now\<rparr> else order4)
            in (Inr order5, saveOrder (Order.truncate order5) db))"

section \<open>CartService.addToCart (modules/cart/cart.service.ts)\<close>

definition saveCartItem :: "CartItem \<Rightarrow> DB \<Rightarrow> DB" where
  "saveCartItem item db =
     db\<lparr>cartItemRows := map (\<lambda>c. if c_id c = c_id item then item else c) (cartItemRows db)\<rparr>"

text \<open>
  \<open>cartItemRepository.findOne({ where: { userId, productId, variantId } })\<close>. A request
  without variant passes \<open>variantId: undefined\<close>, and TypeORM leaves a property whose value
  is \<open>undefined\<close> out of the \<open>WHERE\<close> clause: the lookup is then on \<open>userId\<close> and
  \<open>productId\<close> alone and returns the first line of the product, whatever its variant.
\<close>

definition findCartItem :: "DB \<Rightarrow> uuid \<Rightarrow> uuid \<Rightarrow> uuid option \<Rightarrow> CartItem option" where
  "findCartItem db userId productId variantId =
     find (\<lambda>c. c_userId c = userId \<and> c_productId c = productId \<and>
               (case variantId of None \<Rightarrow> True | Some vid \<Rightarrow> c_variantId c = Some vid))
       (cartItemRows db)"

text \<open>The block "Validate variant if provided".\<close>

definition validateVariant :: "DB \<Rightarrow> AddToCartDto \<Rightarrow> error + ProductVariant option" where
  "validateVariant db addToCartDto =
     (case atc_variantId addToCartDto of
        None \<Rightarrow> Inr None
      | Some vid \<Rightarrow>
          (case find (\<lambda>v. v_id v = vid \<and> v_productId v = atc_productId addToCartDto)
                  (variantRows db) of
             None \<Rightarrow> Inl ProductVariantNotFound
           | Some v \<Rightarrow> if \<not> v_active v then Inl ProductVariantNotFound else Inr (Some v)))"

definition addToCart :: "uuid \<Rightarrow> AddToCartDto \<Rightarrow> DB \<Rightarrow> (error + CartItem) \<times> DB" where
  "addToCart userId addToCartDto db =
     (case findProduct db (atc_productId addToCartDto) of
        None \<Rightarrow> (Inl ProductNotFound, db)
      | Some product \<Rightarrow>
          if p_status product \<noteq> ACTIVE
          then (Inl (ProductNotAvailable (atc_productId addToCartDto)), db)
          else
            (case validateVariant db addToCartDto of
               Inl e \<Rightarrow> (Inl e, db)
             | Inr variant \<Rightarrow>
                 let availableStock = availableStockOf product variant
                 in
                   if availableStock < atc_quantity addToCartDto
                   then (Inl (InsufficientStock availableStock), db)
                   else
                     (case findCartItem db userId (atc_productId addToCartDto)
                             (atc_variantId addToCartDto) of
                        Some existingItem \<Rightarrow>
                          let newQuantity = c_quantity existingItem + atc_quantity addToCartDto
                          in
                            if availableStock < newQuantity
                            then (Inl (InsufficientStock availableStock), db)
                            else
                              let existingItem' = existingItem\<lparr>c_quantity := newQuantity\<rparr>
                              in (Inr existingItem', saveCartItem existingItem' db)
                      | None \<Rightarrow>
                          let cartItem =
                                \<lparr>c_id = freshId (map c_id (cartItemRows db)),
                                 c_userId = userId,
                                 c_productId = atc_productId addToCartDto,
                                 c_variantId = atc_variantId addToCartDto,
                                 c_quantity = atc_quantity addToCartDto\<rparr>
                          in (Inr cartItem, db\<lparr>cartItemRows := cartItemRows db @ [cartItem]\<rparr>))))"

section \<open>CouponsService (modules/coupons/coupons.service.ts)\<close>

text \<open>\<open>String.prototype.toUpperCase\<close> on the ASCII letters.\<close>

definition toUpperCase :: "string \<Rightarrow> string" where
  "toUpperCase str =
     map (\<lambda>c. let n = (of_char c :: nat) in if 97 \<le> n \<and> n \<le> 122 then char_of (n - 32) else c) str"

definition findByCode :: "nat \<Rightarrow> string \<Rightarrow> DB \<Rightarrow> error + Coupon" where
  "findByCode now code db =
     (case find (\<lambda>c. cp_code c = toUpperCase code) (couponRows db) of
        None \<Rightarrow> Inl InvalidCouponCode
      | Some coupon \<Rightarrow>
          if cp_status coupon \<noteq> COUPON_ACTIVE then Inl CouponNotActive
          else if (case cp_validFrom coupon of Some f \<Rightarrow> now < f | None \<Rightarrow> False)
          then Inl CouponNotYetValid
          else if (case cp_validUntil coupon of Some u \<Rightarrow> now > u | None \<Rightarrow> False)
          then Inl CouponExpired
          else if cp_maxUses coupon > 0 \<and> cp_usedCount coupon \<ge> cp_maxUses coupon
          then Inl CouponUsageLimitReached
          else Inr coupon)"

record CouponResult =
  cr_discount :: rat
  cr_couponId :: uuid
  cr_freeShipping :: bool

text \<open>
  \<open>CouponsService.applyCoupon\<close>. \<open>userUses\<close> stands for the count that
  \<open>getUserCouponUses\<close> reads from the orders of the user.
\<close>

definition CouponsService_applyCoupon ::
  "nat \<Rightarrow> int \<Rightarrow> string \<Rightarrow> rat \<Rightarrow> uuid list option \<Rightarrow> uuid list option \<Rightarrow> DB \<Rightarrow>
   error + CouponResult" where
  "CouponsService_applyCoupon now userUses code subtotal productIds categoryIds db =
     bindE (findByCode now code db) (\<lambda>coupon.
     if cp_minOrderAmount coupon \<noteq> 0 \<and> subtotal < cp_minOrderAmount coupon
     then Inl (CouponMinimumOrderAmount (cp_minOrderAmount coupon))
     else if cp_maxUsesPerUser coupon > 0 \<and> userUses \<ge> cp_maxUsesPerUser coupon
     then Inl CouponUserLimitReached
     else if length (cp_applicableCategories coupon) > 0 \<and>
             (case categoryIds of
                None \<Rightarrow> True
              | Some ids \<Rightarrow> \<not> list_ex (\<lambda>i. array_includes (cp_applicableCategories coupon) i) ids)
     then Inl CouponNotApplicable
     else if length (cp_applicableProducts coupon) > 0 \<and>
             (case productIds of
                None \<Rightarrow> True
              | Some ids \<Rightarrow> \<not> list_ex (\<lambda>i. array_includes (cp_applicableProducts coupon) i) ids)
     then Inl CouponNotApplicable
     else
       let discount = (if cp_discountType coupon = PERCENTAGE
                       then subtotal * (cp_discountValue coupon / 100)
                       else cp_discountValue coupon)
       in Inr \<lparr>cr_discount = min discount subtotal,
               cr_couponId = cp_id coupon,
               cr_freeShipping = cp_freeShipping coupon\<rparr>)"

definition incrementUsage :: "uuid \<Rightarrow> DB \<Rightarrow> DB" where
  "incrementUsage couponId db =
     db\<lparr>couponRows :=
          map (\<lambda>c. if cp_id c = couponId then c\<lparr>cp_usedCount := cp_usedCount c + 1\<rparr> else c)
            (couponRows db)\<rparr>"

section \<open>Vocabulary of the properties\<close>

text \<open>The two guards of the checkout loop, as predicates on a loaded cart line.\<close>

definition productUnavailable :: "CartItemRel \<Rightarrow> bool" where
  "productUnavailable cartItem =
     (case c_product cartItem of None \<Rightarrow> True | Some product \<Rightarrow> p_status product \<noteq> ACTIVE)"

definition insufficientStock :: "CartItemRel \<Rightarrow> bool" where
  "insufficientStock cartItem =
     (case c_product cartItem of
        None \<Rightarrow> False
      | Some product \<Rightarrow> c_quantity cartItem > availableStockOf product (c_variant cartItem))"

text \<open>The storage calls that the checkout loop makes for a cart line.\<close>

definition lineFault :: "faults \<Rightarrow> CartItemRel \<Rightarrow> bool" where
  "lineFault fails cartItem =
     (fails (DecrementStock (cartStockRow cartItem)) \<or>
      fails (IncrementSoldCount (c_productId cartItem)))"

text \<open>The storage calls that the checkout makes outside the loop.\<close>

definition checkoutFault :: "faults \<Rightarrow> bool" where
  "checkoutFault fails =
     (fails FindCartItems \<or> fails SaveOrder \<or> fails SaveOrderItems \<or> fails SavePayment \<or>
      fails DeleteCartItems \<or> fails CommitTransaction)"

text \<open>
  Bookings are pairs of a key and a quantity; \<open>booked key bs\<close> is the total quantity the
  list books on the key. An order's items book their quantities on the rows they are
  restocked on, and on their products for the sold count.
\<close>

definition booked :: "'k \<Rightarrow> ('k \<times> int) list \<Rightarrow> int" where
  "booked key bs = sum_list (map snd (filter (\<lambda>b. fst b = key) bs))"

text \<open>The updates of the cancellation loop when no storage call throws.\<close>

definition restock :: "OrderItemRel list \<Rightarrow> DB \<Rightarrow> DB" where
  "restock items db =
     fold (\<lambda>item d. decrementSoldCount (i_productId item) (i_quantity item)
                      (incrementStock (itemStockRow item) (i_quantity item) d)) items db"

definition itemStockBookings :: "OrderItemRel list \<Rightarrow> (StockRow \<times> int) list" where
  "itemStockBookings items = map (\<lambda>i. (itemStockRow i, i_quantity i)) items"

definition itemSoldBookings :: "OrderItemRel list \<Rightarrow> (uuid \<times> int) list" where
  "itemSoldBookings items = map (\<lambda>i. (i_productId i, i_quantity i)) items"

text \<open>\<open>cartItem.variant?.price ?? cartItem.product.price\<close>\<close>

definition linePrice :: "CartItemRel \<Rightarrow> rat" where
  "linePrice cartItem =
     (case c_variant cartItem of
        Some v \<Rightarrow> v_price v
      | None \<Rightarrow> (case c_product cartItem of Some product \<Rightarrow> p_price product | None \<Rightarrow> 0))"

section \<open>Example data\<close>

definition exAddress :: Address where
  "exAddress = \<lparr>a_firstName = ''John'', a_lastName = ''Doe'', a_street = ''123 Main St'',
                 a_city = ''New York'', a_state = ''NY'', a_zipCode = ''10001'',
                 a_country = ''USA'', a_phone = ''+1234567890''\<rparr>"

definition exDto :: CreateOrderDto where
  "exDto = \<lparr>dto_shippingAddress = exAddress, dto_billingAddress = None, dto_notes = None,
            dto_paymentMethod = None, dto_couponCode = None\<rparr>"

text \<open>Product 1 costs 25 and has 10 in stock; Product 2 lists at 100 and is on sale at 80.\<close>

definition exProduct1 :: Product where
  "exProduct1 = \<lparr>p_id = 1, p_sku = ''SKU-1'', p_name = ''Product 1'', p_price = 25,
                 p_salePrice = None, p_stock = 10, p_status = ACTIVE, p_images = [],
                 p_soldCount = 0\<rparr>"

definition exProduct2 :: Product where
  "exProduct2 = \<lparr>p_id = 2, p_sku = ''SKU-2'', p_name = ''Product 2'', p_price = 100,
                 p_salePrice = Some 80, p_stock = 5, p_status = ACTIVE, p_images = [],
                 p_soldCount = 0\<rparr>"

definition exCouponExpired :: Coupon where
  "exCouponExpired = \<lparr>cp_id = 1, cp_code = ''EXPIRED5'', cp_discountType = FIXED_AMOUNT,
      cp_discountValue = 5, cp_minOrderAmount = 0, cp_maxUses = 100, cp_usedCount = 0,
      cp_maxUsesPerUser = 1, cp_validFrom = None, cp_validUntil = Some 50,
      cp_status = COUPON_EXPIRED, cp_applicableCategories = [], cp_applicableProducts = [],
      cp_freeShipping = False\<rparr>"

definition exCouponWelcome :: Coupon where
  "exCouponWelcome = \<lparr>cp_id = 2, cp_code = ''WELCOME'', cp_discountType = FIXED_AMOUNT,
      cp_discountValue = 10, cp_minOrderAmount = 0, cp_maxUses = 100, cp_usedCount = 3,
      cp_maxUsesPerUser = 5, cp_validFrom = None, cp_validUntil = None,
      cp_status = COUPON_ACTIVE, cp_applicableCategories = [], cp_applicableProducts = [],
      cp_freeShipping = False\<rparr>"

text \<open>User 7 has four units of Product 1 in the cart; user 8 has one unit of Product 2.\<close>

definition exDb :: DB where
  "exDb = \<lparr>productRows = [exProduct1, exProduct2], variantRows = [],
           cartItemRows =
             [\<lparr>c_id = 1, c_userId = 7, c_productId = 1, c_variantId = None, c_quantity = 4\<rparr>,
              \<lparr>c_id = 2, c_userId = 8, c_productId = 2, c_variantId = None, c_quantity = 1\<rparr>],
           orderRows = [], orderItemRows = [], paymentRows = [],
           couponRows = [exCouponExpired, exCouponWelcome]\<rparr>"

text \<open>An order of user 7 that was shipped at time 10.\<close>

definition exShippedOrder :: Order where
  "exShippedOrder =
     \<lparr>o_id = 1, o_orderNumber = ''ORD-1'', o_userId = 7, o_status = SHIPPED, o_subtotal = 50,
      o_discount = 0, o_tax = 4, o_shippingCost = 10, o_total = 64,
      o_shippingAddress = exAddress, o_billingAddress = exAddress, o_notes = None,
      o_trackingNumber = Some ''TRACK-1'', o_shippedAt = Some 10, o_deliveredAt = None,
      o_cancelledAt = None, o_cancellationReason = None\<rparr>"

definition exShippedDb :: DB where
  "exShippedDb = \<lparr>productRows = [exProduct1], variantRows = [], cartItemRows = [],
                  orderRows = [exShippedOrder], orderItemRows = [], paymentRows = [],
                  couponRows = []\<rparr>"

text \<open>
  Product 3 has 2 in stock and user 9 asks for 5; a fault oracle under which only the commit
  fails.
\<close>

definition exProduct3 :: Product where
  "exProduct3 = \<lparr>p_id = 3, p_sku = ''SKU-3'', p_name = ''Product 3'', p_price = 30,
                 p_salePrice = None, p_stock = 2, p_status = ACTIVE, p_images = [],
                 p_soldCount = 0\<rparr>"

definition exLowStockDb :: DB where
  "exLowStockDb = \<lparr>productRows = [exProduct3], variantRows = [],
     cartItemRows =
       [\<lparr>c_id = 1, c_userId = 9, c_productId = 3, c_variantId = None, c_quantity = 5\<rparr>],
     orderRows = [], orderItemRows = [], paymentRows = [], couponRows = []\<rparr>"

definition commitFails :: faults where
  "commitFails = (\<lambda>opn. opn = CommitTransaction)"

text \<open>
  A cart of user 7 with two lines for Product 1 and no variant, six units each, while
  Product 1 has 10 in stock. A line loses its variant when the variant is deleted
  (\<open>ON DELETE SET NULL\<close>), and the unique constraint of the cart does not bind lines
  without variant.
\<close>

definition exOversellDb :: DB where
  "exOversellDb =
     \<lparr>productRows = [exProduct1], variantRows = [],
      cartItemRows =
        [\<lparr>c_id = 1, c_userId = 7, c_productId = 1, c_variantId = None, c_quantity = 6\<rparr>,
         \<lparr>c_id = 2, c_userId = 7, c_productId = 1, c_variantId = None, c_quantity = 6\<rparr>],
      orderRows = [], orderItemRows = [], paymentRows = [], couponRows = []\<rparr>"

text \<open>The variant Red of Product 1, with 2 in stock.\<close>

definition exVariantRed :: ProductVariant where
  "exVariantRed = \<lparr>v_id = 5, v_productId = 1, v_sku = ''SKU-1-RED'', v_name = ''Red'',
                   v_price = 30, v_salePrice = None, v_stock = 2, v_active = True\<rparr>"

text \<open>
  The cart of user 7 holds two units of the variant Red of Product 1 and, after it, one
  unit of Product 1 without variant.
\<close>

definition exRedLine :: CartItem where
  "exRedLine = \<lparr>c_id = 1, c_userId = 7, c_productId = 1, c_variantId = Some 5, c_quantity = 2\<rparr>"

definition exPlainLine :: CartItem where
  "exPlainLine = \<lparr>c_id = 2, c_userId = 7, c_productId = 1, c_variantId = None, c_quantity = 1\<rparr>"

definition exTwoLineCartDb :: DB where
  "exTwoLineCartDb =
     \<lparr>productRows = [exProduct1], variantRows = [exVariantRed],
      cartItemRows = [exRedLine, exPlainLine],
      orderRows = [], orderItemRows = [], paymentRows = [], couponRows = []\<rparr>"

text \<open>A request for three more units of Product 1, without variant.\<close>

definition exAddThree :: AddToCartDto where
  "exAddThree = \<lparr>atc_productId = 1, atc_variantId = None, atc_quantity = 3\<rparr>"

text \<open>
  A pending, paid order of user 7 with two items of Product 1: two units of the variant
  Red and three units without variant. Product 1 has 7 in stock and a sold count of 5,
  the variant Red has 2 in stock.
\<close>

definition exPendingOrder :: Order where
  "exPendingOrder =
     \<lparr>o_id = 1, o_orderNumber = ''ORD-1'', o_userId = 7, o_status = PENDING, o_subtotal = 135,
      o_discount = 0, o_tax = 54 / 5, o_shippingCost = 0, o_total = 729 / 5,
      o_shippingAddress = exAddress, o_billingAddress = exAddress, o_notes = None,
      o_trackingNumber = None, o_shippedAt = None, o_deliveredAt = None,
      o_cancelledAt = None, o_cancellationReason = None\<rparr>"

definition exPendingDb :: DB where
  "exPendingDb =
     \<lparr>productRows = [exProduct1\<lparr>p_stock := 7, p_soldCount := 5\<rparr>],
      variantRows = [exVariantRed],
      cartItemRows = [],
      orderRows = [exPendingOrder],
      orderItemRows =
        [\<lparr>i_productId = 1, i_variantId = Some 5, i_name = ''Product 1'', i_sku = ''SKU-1-RED'',
          i_unitPrice = 30, i_quantity = 2, i_total = 60,
          i_productSnapshot = \<lparr>ps_name = ''Product 1'', ps_image = None, ps_variant = Some ''Red''\<rparr>,
          i_id = 1, i_orderId = 1\<rparr>,
         \<lparr>i_productId = 1, i_variantId = None, i_name = ''Product 1'', i_sku = ''SKU-1'',
          i_unitPrice = 25, i_quantity = 3, i_total = 75,
          i_productSnapshot = \<lparr>ps_name = ''Product 1'', ps_image = None, ps_variant = None\<rparr>,
          i_id = 2, i_orderId = 1\<rparr>],
      paymentRows =
        [\<lparr>pay_id = 1, pay_orderId = 1, pay_amount = 729 / 5, pay_currency = ''USD'',
          pay_paymentMethod = STRIPE, pay_paymentStatus = PAY_COMPLETED,
          pay_description = None, pay_refundedAt = None, pay_refundReason = None\<rparr>],
      couponRows = []\<rparr>"

section \<open>Properties of the state machine\<close>

text \<open>
  C5 as stated: \<open>canTransition\<close> is true exactly on the eight edges, and false from
  CANCELLED to every status. The validator also accepts every pair of equal statuses, so
  the statement fails at (PENDING, PENDING) and at (CANCELLED, CANCELLED).
\<close>

theorem C5_counterexample:
  "canTransition PENDING PENDING \<and> (PENDING, PENDING) \<notin> set legal_edges
   \<and> canTransition CANCELLED CANCELLED"
  by (simp add: canTransition_def array_includes_def legal_edges_def)

text \<open>
  C5 amended: \<open>canTransition from to\<close> is true exactly when \<open>(from, to)\<close> is one of the
  eight edges or \<open>from = to\<close>; PENDING to CONFIRMED is allowed, PENDING to DELIVERED is not;
  from CANCELLED, REFUNDED and RETURNED the only accepted target is the status itself,
  and these three are the statuses without outgoing edges. The table that \<open>updateStatus\<close>
  declares locally is the same table.
\<close>

theorem C5_canTransition_edges_or_same:
  "canTransition a b = ((a, b) \<in> set legal_edges \<or> a = b)
   \<and> canTransition PENDING CONFIRMED
   \<and> canTransition PENDING DELIVERED = False
   \<and> canTransition CANCELLED s = (s = CANCELLED)
   \<and> canTransition REFUNDED s = (s = REFUNDED)
   \<and> canTransition RETURNED s = (s = RETURNED)
   \<and> isFinalStatus a = (a = CANCELLED \<or> a = REFUNDED \<or> a = RETURNED)
   \<and> statusTransitions a = ORDER_STATUS_TRANSITIONS a"
  by (cases a; cases b; cases s;
      simp add: canTransition_def array_includes_def legal_edges_def isFinalStatus_def)

section \<open>Checkout on concrete carts\<close>

text \<open>
  C2 at the cart of the unit test "should calculate totals correctly" (4 units at 25,
  tax rate 0.08, shipping cost 10, threshold 100): the order is stored with
  \<open>shippingCost = 0\<close> and \<open>total = 118\<close>; the total of the claim, computed from the stored
  fields, is 108.
\<close>

theorem C2_total_charges_flat_shipping_at_threshold:
  "(case create noFaults defaultConfig ''ORD-1'' 7 exDto exDb of
      (Inl e, db') \<Rightarrow> False
    | (Inr order, db') \<Rightarrow>
        o_subtotal order = 100 \<and> o_tax order = 8 \<and> o_shippingCost order = 0 \<and>
        o_discount order = 0 \<and> o_total order = 118 \<and>
        round2 (o_subtotal order + o_tax order + o_shippingCost order - o_discount order) = 108 \<and>
        map o_total (orderRows db') = [118] \<and> map pay_amount (paymentRows db') = [118])"
  by code_simp

text \<open>
  C8 at a product on sale (list price 100, sale price 80): the order item is frozen at
  the list price.
\<close>

theorem C8_sale_price_not_used:
  "p_salePrice exProduct2 = Some 80 \<and>
   (case create noFaults defaultConfig ''ORD-2'' 8 exDto exDb of
      (Inl e, db') \<Rightarrow> False
    | (Inr order, db') \<Rightarrow>
        map i_unitPrice (o_items order) = [100] \<and> map i_unitPrice (orderItemRows db') = [100] \<and>
        o_subtotal order = 100)"
  by code_simp

text \<open>
  C7 at a coupon code that the coupons service rejects (its status is not active): the
  checkout succeeds and stores an order with discount 0.
\<close>

theorem C7_rejected_coupon_still_creates_order:
  "findByCode 60 ''EXPIRED5'' exDb = Inl CouponNotActive \<and>
   findByCode 60 ''NOSUCHCODE'' exDb = Inl InvalidCouponCode \<and>
   (case create noFaults defaultConfig ''ORD-3'' 7 (exDto\<lparr>dto_couponCode := Some ''EXPIRED5''\<rparr>) exDb of
      (Inl e, db') \<Rightarrow> False
    | (Inr order, db') \<Rightarrow> o_discount order = 0 \<and> map o_discount (orderRows db') = [0]) \<and>
   (case create noFaults defaultConfig ''ORD-3'' 7 (exDto\<lparr>dto_couponCode := Some ''NOSUCHCODE''\<rparr>) exDb of
      (Inl e, db') \<Rightarrow> False
    | (Inr order, db') \<Rightarrow> o_discount order = 0 \<and> map o_discount (orderRows db') = [0])"
  by code_simp

text \<open>
  C9 at a valid coupon with \<open>usedCount = 3\<close>: the checkout that supplies its code
  succeeds and the count is still 3.
\<close>

theorem C9_usedCount_not_incremented_by_checkout:
  "map_sum id cp_usedCount (findByCode 60 ''WELCOME'' exDb) = Inr 3 \<and>
   (case create noFaults defaultConfig ''ORD-4'' 7 (exDto\<lparr>dto_couponCode := Some ''WELCOME''\<rparr>) exDb of
      (Inl e, db') \<Rightarrow> False
    | (Inr order, db') \<Rightarrow>
        map_sum id cp_usedCount (findByCode 60 ''WELCOME'' db') = Inr 3 \<and>
        couponRows db' = couponRows exDb)"
  by code_simp

section \<open>Reading rows back\<close>

lemma find_Some_holds: "find P xs = Some x \<Longrightarrow> P x \<and> x \<in> set xs"
  by (induction xs) (auto split: if_splits)

lemma find_map_replace:
  "find (\<lambda>r. k r = x) xs = Some r0 \<Longrightarrow> k new = x \<Longrightarrow>
   find (\<lambda>r. k r = x) (map (\<lambda>r. if k r = x then new else r) xs) = Some new"
  by (induction xs) (auto split: if_splits)

lemma OrderRel_eqI:
  "Order.truncate a = Order.truncate b \<Longrightarrow> o_items a = o_items b \<Longrightarrow>
   o_payments a = o_payments b \<Longrightarrow> a = (b :: OrderRel)"
  by (cases a; cases b) (simp add: Order.defs)

lemma o_id_truncate [simp]: "o_id (Order.truncate (r :: OrderRel)) = o_id r"
  by (cases r) (simp add: Order.defs)

lemma loadOrder_sel [simp]:
  "o_id (loadOrder db r) = o_id r"
  "o_status (loadOrder db r) = o_status r"
  "o_items (loadOrder db r) =
     map (loadOrderItem db) (filter (\<lambda>i. i_orderId i = o_id r) (orderItemRows db))"
  "o_payments (loadOrder db r) = filter (\<lambda>p. pay_orderId p = o_id r) (paymentRows db)"
  "Order.truncate (loadOrder db r) = r"
  by (cases r; simp add: loadOrder_def Order.defs OrderRel.defs)+

lemma findOne_None_iff:
  "findOne db orderId None = Inr order \<longleftrightarrow>
   (\<exists>r0. find (\<lambda>r. o_id r = orderId) (orderRows db) = Some r0 \<and> order = loadOrder db r0)"
  by (auto simp: findOne_def split: option.splits)

lemma loadOrderItem_cong:
  "productRows db' = productRows db \<Longrightarrow> variantRows db' = variantRows db \<Longrightarrow>
   loadOrderItem db' = loadOrderItem db"
  by (rule ext) (simp add: loadOrderItem_def findProduct_def findVariant_def split: option.splits)

text \<open>After \<open>save(order)\<close>, reading the order back gives the saved entity.\<close>

lemma findOne_saveOrder:
  assumes "findOne db orderId None = Inr order"
    and "o_id order' = orderId"
    and "o_items order' = o_items order"
    and "o_payments order' = o_payments order"
  shows "findOne (saveOrder (Order.truncate order') db) orderId None = Inr order'"
proof -
  from assms(1) obtain r0 where f: "find (\<lambda>r. o_id r = orderId) (orderRows db) = Some r0"
    and o: "order = loadOrder db r0"
    by (auto simp: findOne_None_iff)
  have id0: "o_id r0 = orderId" using find_Some_holds[OF f] by simp
  let ?db' = "saveOrder (Order.truncate order') db"
  have "find (\<lambda>r. o_id r = orderId) (orderRows ?db') = Some (Order.truncate order')"
    using find_map_replace[OF f, of "Order.truncate order'"] assms(2)
    by (simp add: saveOrder_def)
  moreover have "loadOrder ?db' (Order.truncate order') = order'"
  proof (rule OrderRel_eqI)
    have li: "loadOrderItem ?db' = loadOrderItem db"
      by (rule loadOrderItem_cong) (simp_all add: saveOrder_def)
    show "Order.truncate (loadOrder ?db' (Order.truncate order')) = Order.truncate order'"
      by simp
    show "o_items (loadOrder ?db' (Order.truncate order')) = o_items order'"
      using assms(2,3) id0 o by (simp add: li) (simp add: saveOrder_def)
    show "o_payments (loadOrder ?db' (Order.truncate order')) = o_payments order'"
      using assms(2,4) id0 o by (simp add: saveOrder_def)
  qed
  ultimately show ?thesis by (simp add: findOne_None_iff)
qed

section \<open>Same-state transitions\<close>

text \<open>
  What \<open>updateStatus\<close> does when it is asked for the status the order already has: the
  request passes the check, status and \<open>cancelledAt\<close> stay, and the two stamps are keyed on
  the requested status alone.
\<close>

lemma updateStatus_same_state:
  assumes "findOne db orderId None = Inr order"
  shows "\<exists>order'. updateStatus now orderId (o_status order) additionalData db
                     = (Inr order', saveOrder (Order.truncate order') db)
           \<and> o_id order' = o_id order \<and> o_items order' = o_items order
           \<and> o_payments order' = o_payments order
           \<and> o_status order' = o_status order
           \<and> o_cancelledAt order' = o_cancelledAt order
           \<and> o_shippedAt order' = (if o_status order = SHIPPED then Some now else o_shippedAt order)
           \<and> o_deliveredAt order' =
               (if o_status order = DELIVERED then Some now else o_deliveredAt order)"
  using assms
  by (simp add: updateStatus_def Let_def split: option.splits)

text \<open>
  C6 at an order that was shipped at time 10: \<open>updateStatus\<close> at time 20 with the order's
  own status SHIPPED succeeds and keeps the status, but the returned order and the stored
  row carry \<open>shippedAt = 20\<close>; the timestamp of the shipment is lost.
\<close>

theorem C6_same_state_restamps_shippedAt:
  "map o_status (orderRows exShippedDb) = [SHIPPED] \<and>
   map o_shippedAt (orderRows exShippedDb) = [Some 10] \<and>
   (case updateStatus 20 1 SHIPPED None exShippedDb of
      (Inl e, db') \<Rightarrow> False
    | (Inr order', db') \<Rightarrow>
        o_status order' = SHIPPED \<and> o_shippedAt order' = Some 20 \<and>
        map o_status (orderRows db') = [SHIPPED] \<and>
        map o_shippedAt (orderRows db') = [Some 20])"
  by code_simp

section \<open>Atomicity of the checkout\<close>

lemma le_foldr_max: "x \<in> set ids \<Longrightarrow> x \<le> foldr max ids (0::nat)"
  by (induction ids) auto

lemma freshId_notin: "freshId ids \<notin> set ids"
  using le_foldr_max[of "freshId ids" ids] by (auto simp: freshId_def)

lemma find_append_last:
  "\<forall>y \<in> set xs. \<not> P y \<Longrightarrow> P x \<Longrightarrow> find P (xs @ [x]) = Some x"
  by (induction xs) auto

lemma processCartItems_lines_ok:
  "processCartItems fails ls acc = Inr r \<Longrightarrow>
   \<forall>c \<in> set ls. \<not> productUnavailable c \<and> \<not> insufficientStock c \<and> \<not> lineFault fails c"
proof (induction ls arbitrary: acc)
  case Nil
  then show ?case by simp
next
  case (Cons c ls)
  obtain items sub db where acc: "acc = (items, sub, db)" by (cases acc)
  from Cons.prems show ?case
    unfolding acc
    by (auto simp: productUnavailable_def insufficientStock_def lineFault_def bindE_def
          storage_def Let_def
        split: option.splits if_splits sum.splits dest: Cons.IH)
qed

lemma processCartItems_other_tables:
  "processCartItems fails ls (items, sub, db) = Inr (items', sub', db') \<Longrightarrow>
   orderRows db' = orderRows db \<and> cartItemRows db' = cartItemRows db \<and>
   orderItemRows db' = orderItemRows db \<and> paymentRows db' = paymentRows db \<and>
   couponRows db' = couponRows db"
proof (induction ls arbitrary: items sub db)
  case Nil
  then show ?case by simp
next
  case (Cons c ls)
  from Cons.prems show ?case
    by (cases "cartStockRow c")
       (auto simp: bindE_def storage_def Let_def incrementSoldCount_def
        split: option.splits if_splits sum.splits dest!: Cons.IH)
qed

lemma createTransaction_Inr:
  assumes "createTransaction fails cfg n userId dto db = Inr (orderId, db')"
  shows "\<not> checkoutFault fails \<and> findCartItems db userId \<noteq> [] \<and>
         (\<exists>r. processCartItems fails (findCartItems db userId) ([], 0, db) = Inr r) \<and>
         (\<exists>order. orderRows db' = orderRows db @ [order] \<and> o_id order = orderId \<and>
                   o_userId order = userId \<and> orderId = freshId (map o_id (orderRows db)))"
  using assms
  by (auto simp: createTransaction_def bindE_def storage_def Let_def applyCoupon_def
        checkoutFault_def deleteCartItems_def insertOrderItems_def
      split: if_splits sum.splits prod.splits option.splits
      dest!: processCartItems_other_tables)

lemma createTransaction_readback:
  assumes "createTransaction fails cfg n userId dto db = Inr (orderId, db')"
  shows "\<exists>order. findOne db' orderId (Some userId) = Inr order"
proof -
  from createTransaction_Inr[OF assms] obtain order where
    rows: "orderRows db' = orderRows db @ [order]" and
    oid: "o_id order = orderId" and uid: "o_userId order = userId" and
    fresh: "orderId = freshId (map o_id (orderRows db))"
    by blast
  have "\<forall>y \<in> set (orderRows db). \<not> (o_id y = orderId \<and> o_userId y = userId)"
    using freshId_notin[of "map o_id (orderRows db)"] fresh by (auto simp: image_iff)
  then have "find (\<lambda>r. o_id r = orderId \<and> o_userId r = userId) (orderRows db') = Some order"
    unfolding rows using oid uid by (intro find_append_last) auto
  then show ?thesis by (simp add: findOne_def)
qed

text \<open>
  C1: whenever \<open>create\<close> returns an error the database is the one it was called on, so
  no order, order item or payment row exists for the attempt and every stock, sold count
  and cart line is as before. An empty cart, a line whose product is missing or not active,
  a line that asks for more than the available stock, and a storage call that throws
  (inside the loop or after it, the commit included) each make \<open>create\<close> return an error;
  for the empty cart the error is "Cart is empty".
\<close>

theorem C1_checkout_atomicity:
  "(fst (create fails cfg orderNumber userId dto db) = Inl e
      \<longrightarrow> snd (create fails cfg orderNumber userId dto db) = db)
   \<and> (findCartItems db userId = []
        \<or> (\<exists>c \<in> set (findCartItems db userId).
              productUnavailable c \<or> insufficientStock c \<or> lineFault fails c)
        \<or> checkoutFault fails
      \<longrightarrow> (\<exists>e'. create fails cfg orderNumber userId dto db = (Inl e', db)))
   \<and> (findCartItems db userId = [] \<and> \<not> fails FindCartItems
      \<longrightarrow> create fails cfg orderNumber userId dto db = (Inl CartIsEmpty, db))"
proof (intro conjI impI)
  assume "fst (create fails cfg orderNumber userId dto db) = Inl e"
  then show "snd (create fails cfg orderNumber userId dto db) = db"
    by (auto simp: create_def split: sum.splits prod.splits dest: createTransaction_readback)
next
  assume bad: "findCartItems db userId = []
        \<or> (\<exists>c \<in> set (findCartItems db userId).
              productUnavailable c \<or> insufficientStock c \<or> lineFault fails c)
        \<or> checkoutFault fails"
  show "\<exists>e'. create fails cfg orderNumber userId dto db = (Inl e', db)"
  proof (cases "createTransaction fails cfg orderNumber userId dto db")
    case (Inl e')
    then show ?thesis by (simp add: create_def)
  next
    case (Inr r)
    obtain orderId db' where r: "r = (orderId, db')" by (cases r)
    from createTransaction_Inr[OF Inr[unfolded r]] bad show ?thesis
      by (auto dest: processCartItems_lines_ok)
  qed
next
  assume "findCartItems db userId = [] \<and> \<not> fails FindCartItems"
  then show "create fails cfg orderNumber userId dto db = (Inl CartIsEmpty, db)"
    by (simp add: create_def createTransaction_def bindE_def storage_def)
qed

theorem C1_checkout_atomicity_witness:
  "fst (create noFaults defaultConfig ''ORD-9'' 9 exDto exLowStockDb) = Inl (InsufficientStock 2)
   \<and> snd (create noFaults defaultConfig ''ORD-9'' 9 exDto exLowStockDb) = exLowStockDb
   \<and> (\<exists>c \<in> set (findCartItems exLowStockDb 9). insufficientStock c)
   \<and> (\<exists>e'. create noFaults defaultConfig ''ORD-9'' 9 exDto exLowStockDb = (Inl e', exLowStockDb))
   \<and> checkoutFault commitFails
   \<and> (\<exists>e'. create commitFails defaultConfig ''ORD-1'' 7 exDto exDb = (Inl e', exDb))
   \<and> findCartItems exDb 99 = [] \<and> \<not> noFaults FindCartItems
   \<and> create noFaults defaultConfig ''ORD-1'' 99 exDto exDb = (Inl CartIsEmpty, exDb)"
proof -
  have h1: "fst (create noFaults defaultConfig ''ORD-9'' 9 exDto exLowStockDb)
              = Inl (InsufficientStock 2)"
    by code_simp
  have h2: "\<exists>c \<in> set (findCartItems exLowStockDb 9). insufficientStock c"
    by code_simp
  have h3: "checkoutFault commitFails"
    by (simp add: checkoutFault_def commitFails_def)
  have h4: "findCartItems exDb 99 = [] \<and> \<not> noFaults FindCartItems"
    by code_simp
  note a = C1_checkout_atomicity[of noFaults defaultConfig "''ORD-9''" 9 exDto exLowStockDb
                "InsufficientStock 2"]
  note b = C1_checkout_atomicity[of commitFails defaultConfig "''ORD-1''" 7 exDto exDb]
  note c = C1_checkout_atomicity[of noFaults defaultConfig "''ORD-1''" 99 exDto exDb]
  from a h1 have a1: "snd (create noFaults defaultConfig ''ORD-9'' 9 exDto exLowStockDb) = exLowStockDb"
    by blast
  from a h2 have a2: "\<exists>e'. create noFaults defaultConfig ''ORD-9'' 9 exDto exLowStockDb = (Inl e', exLowStockDb)"
    by blast
  from b h3 have b1: "\<exists>e'. create commitFails defaultConfig ''ORD-1'' 7 exDto exDb = (Inl e', exDb)"
    by blast
  from c h4 have c1: "create noFaults defaultConfig ''ORD-1'' 99 exDto exDb = (Inl CartIsEmpty, exDb)"
    by blast
  from h1 a1 h2 a2 h3 b1 h4 c1 show ?thesis by blast
qed

section \<open>Cancellation\<close>

lemma booked_Nil [simp]: "booked key [] = 0"
  by (simp add: booked_def)

lemma booked_Cons [simp]:
  "booked key ((k, n) # bs) = (if k = key then n else 0) + booked key bs"
  by (simp add: booked_def)

lemma storage_noFaults [simp]: "storage noFaults opn x = Inr x"
  by (simp add: storage_def noFaults_def)

lemma bindE_Inr [simp]: "bindE (Inr x) f = f x"
  by (simp add: bindE_def)

lemma bindE_Inl [simp]: "bindE (Inl e) f = Inl e"
  by (simp add: bindE_def)

lemma restoreItems_noFaults: "restoreItems noFaults items db = Inr (restock items db)"
  by (induction items arbitrary: db)
     (simp_all add: restock_def Let_def)

lemma restock_Cons:
  "restock (item # items) db =
     restock items (decrementSoldCount (i_productId item) (i_quantity item)
                      (incrementStock (itemStockRow item) (i_quantity item) db))"
  by (simp add: restock_def)

lemma restock_products:
  "productRows (restock items db) =
     map (\<lambda>p. p\<lparr>p_stock := p_stock p + booked (ProductRow (p_id p)) (itemStockBookings items),
                p_soldCount := p_soldCount p - booked (p_id p) (itemSoldBookings items)\<rparr>)
       (productRows db)"
proof (induction items arbitrary: db)
  case Nil
  then show ?case by (simp add: restock_def itemStockBookings_def itemSoldBookings_def)
next
  case (Cons item items)
  show ?case
    unfolding restock_Cons Cons.IH
    by (cases "itemStockRow item")
       (auto simp: itemStockBookings_def itemSoldBookings_def decrementSoldCount_def)
qed

lemma restock_variants:
  "variantRows (restock items db) =
     map (\<lambda>v. v\<lparr>v_stock := v_stock v + booked (VariantRow (v_id v)) (itemStockBookings items)\<rparr>)
       (variantRows db)"
proof (induction items arbitrary: db)
  case Nil
  then show ?case by (simp add: restock_def itemStockBookings_def)
next
  case (Cons item items)
  show ?case
    unfolding restock_Cons Cons.IH
    by (cases "itemStockRow item")
       (auto simp: itemStockBookings_def decrementSoldCount_def)
qed

lemma restock_other_tables:
  "orderRows (restock items db) = orderRows db \<and>
   cartItemRows (restock items db) = cartItemRows db \<and>
   orderItemRows (restock items db) = orderItemRows db \<and>
   paymentRows (restock items db) = paymentRows db \<and>
   couponRows (restock items db) = couponRows db"
proof (induction items arbitrary: db)
  case Nil
  then show ?case by (simp add: restock_def)
next
  case (Cons item items)
  show ?case
    unfolding restock_Cons
    by (cases "itemStockRow item") (simp_all add: Cons.IH decrementSoldCount_def)
qed

lemma find_weaken:
  "find (\<lambda>r. k r = x \<and> Q r) xs = Some r0 \<Longrightarrow> \<exists>r1. find (\<lambda>r. k r = x) xs = Some r1"
  by (induction xs) (auto split: if_splits)

lemma findOne_Some_iff:
  "findOne db orderId (Some userId) = Inr order \<longleftrightarrow>
   (\<exists>r0. find (\<lambda>r. o_id r = orderId \<and> o_userId r = userId) (orderRows db) = Some r0
         \<and> order = loadOrder db r0)"
  by (auto simp: findOne_def split: option.splits)

lemma truncate_update:
  "Order.truncate ((order :: OrderRel)\<lparr>o_status := s, o_cancelledAt := c, o_cancellationReason := r\<rparr>)
   = (Order.truncate order)\<lparr>o_status := s, o_cancelledAt := c, o_cancellationReason := r\<rparr>"
  by (cases order) (simp add: Order.defs)

lemma loadOrder_cancel_sel [simp]:
  "o_cancelledAt (loadOrder db r) = o_cancelledAt r"
  "o_cancellationReason (loadOrder db r) = o_cancellationReason r"
  by (cases r; simp add: loadOrder_def Order.defs OrderRel.defs)+

section \<open>Pricing of a successful checkout\<close>

lemma processCartItems_prices:
  "processCartItems fails cs (items, sub, db) = Inr (items', sub', db') \<Longrightarrow>
   sub' = sub + (\<Sum>c\<leftarrow>cs. linePrice c * of_int (c_quantity c)) \<and>
   map i_unitPrice items' = map i_unitPrice items @ map linePrice cs"
proof (induction cs arbitrary: items sub db)
  case Nil
  then show ?case by simp
next
  case (Cons c cs)
  from Cons.prems show ?case
    by (auto simp: bindE_def storage_def Let_def orderItemOf_def linePrice_def
        split: option.splits if_splits sum.splits dest!: Cons.IH)
qed

lemma loadOrder_money_sel [simp]:
  "o_subtotal (loadOrder db r) = o_subtotal r"
  "o_tax (loadOrder db r) = o_tax r"
  "o_shippingCost (loadOrder db r) = o_shippingCost r"
  "o_discount (loadOrder db r) = o_discount r"
  "o_total (loadOrder db r) = o_total r"
  by (cases r; simp add: loadOrder_def Order.defs OrderRel.defs)+

lemma createTransaction_order:
  assumes "createTransaction fails cfg n userId dto db = Inr (orderId, db')"
  shows "\<exists>items sub db1 row.
           processCartItems fails (findCartItems db userId) ([], 0, db) = Inr (items, sub, db1)
         \<and> orderRows db' = orderRows db1 @ [row]
         \<and> orderId = freshId (map o_id (orderRows db1))
         \<and> o_id row = orderId \<and> o_userId row = userId
         \<and> o_subtotal row = sub
         \<and> o_tax row = round2 (sub * TAX_RATE cfg)
         \<and> o_shippingCost row = (if FREE_SHIPPING_THRESHOLD cfg \<le> sub then 0 else SHIPPING_COST cfg)
         \<and> o_discount row = 0
         \<and> o_total row = round2 (sub + round2 (sub * TAX_RATE cfg) + SHIPPING_COST cfg - 0)"
proof (cases "processCartItems fails (findCartItems db userId) ([], 0, db)")
  case (Inl e)
  with assms show ?thesis
    by (simp add: createTransaction_def bindE_def storage_def split: if_splits)
next
  case (Inr r)
  obtain items sub db1 where r: "r = (items, sub, db1)" by (cases r)
  from assms Inr show ?thesis
    unfolding r
    by (auto simp: createTransaction_def bindE_def storage_def Let_def applyCoupon_def
          deleteCartItems_def insertOrderItems_def
        split: if_splits option.splits)
qed

text \<open>
  The monetary fields of the order that a successful checkout returns: the subtotal is
  the sum over the cart lines of price times quantity, where the price is the variant's
  price when the line has a variant and the product's price otherwise; tax and discount
  are as the specification gives them; the total always includes the flat shipping cost,
  whatever \<open>shippingCost\<close> the order carries.
\<close>

lemma checkout_pricing:
  assumes "create fails cfg n userId dto db = (Inr order, db')"
  shows "o_subtotal order = (\<Sum>c\<leftarrow>findCartItems db userId. linePrice c * of_int (c_quantity c))
       \<and> o_tax order = round2 (o_subtotal order * TAX_RATE cfg)
       \<and> o_shippingCost order =
           (if FREE_SHIPPING_THRESHOLD cfg \<le> o_subtotal order then 0 else SHIPPING_COST cfg)
       \<and> o_discount order = 0
       \<and> o_total order = round2 (o_subtotal order + o_tax order + SHIPPING_COST cfg - o_discount order)"
proof (cases "createTransaction fails cfg n userId dto db")
  case (Inl e)
  with assms show ?thesis by (simp add: create_def)
next
  case (Inr r)
  obtain orderId db2 where r: "r = (orderId, db2)" by (cases r)
  from assms Inr r have db2: "db2 = db'" and rd: "findOne db' orderId (Some userId) = Inr order"
    by (auto simp: create_def)
  from createTransaction_order[OF Inr[unfolded r db2]] obtain items sub db1 row where
    loop: "processCartItems fails (findCartItems db userId) ([], 0, db) = Inr (items, sub, db1)"
    and rows: "orderRows db' = orderRows db1 @ [row]"
    and fresh: "orderId = freshId (map o_id (orderRows db1))"
    and ids: "o_id row = orderId" "o_userId row = userId"
    and money: "o_subtotal row = sub" "o_tax row = round2 (sub * TAX_RATE cfg)"
      "o_shippingCost row = (if FREE_SHIPPING_THRESHOLD cfg \<le> sub then 0 else SHIPPING_COST cfg)"
      "o_discount row = 0"
      "o_total row = round2 (sub + round2 (sub * TAX_RATE cfg) + SHIPPING_COST cfg - 0)"
    by blast
  have "\<forall>y \<in> set (orderRows db1). \<not> (o_id y = orderId \<and> o_userId y = userId)"
    using freshId_notin[of "map o_id (orderRows db1)"] fresh by (auto simp: image_iff)
  then have "find (\<lambda>r. o_id r = orderId \<and> o_userId r = userId) (orderRows db') = Some row"
    unfolding rows using ids by (intro find_append_last) auto
  with rd have order: "order = loadOrder db' row"
    by (simp add: findOne_def)
  from processCartItems_prices[OF loop] have
    "sub = (\<Sum>c\<leftarrow>findCartItems db userId. linePrice c * of_int (c_quantity c))"
    by simp
  with order money show ?thesis by simp
qed

section \<open>Carts that share a stock row or a product\<close>

text \<open>
  C3 at a cart with two lines of six units that draw on the same product row, stock 10:
  neither line asks for more than the stock the loop compares it with, the checkout
  succeeds with no insufficient-stock error, and the stock of the product is then -2.
\<close>

theorem C3_two_lines_on_one_row_oversell:
  "map p_stock (productRows exOversellDb) = [10] \<and>
   map c_quantity (findCartItems exOversellDb 7) = [6, 6] \<and>
   map cartStockRow (findCartItems exOversellDb 7) = [ProductRow 1, ProductRow 1] \<and>
   map insufficientStock (findCartItems exOversellDb 7) = [False, False] \<and>
   (case create noFaults defaultConfig ''ORD-1'' 7 exDto exOversellDb of
      (Inl e, db') \<Rightarrow> False
    | (Inr order, db') \<Rightarrow>
        map p_stock (productRows db') = [- 2] \<and> map p_soldCount (productRows db') = [12] \<and>
        map i_quantity (orderItemRows db') = [6, 6] \<and> o_status order = PENDING)"
  by code_simp

text \<open>
  C10 at a cart that has the line (Product 1, no variant) with quantity 1, and before it
  a line for the variant Red of the same product with quantity 2: \<open>addToCart\<close> for three
  units of (Product 1, no variant) succeeds, the line it returns and updates is the line
  of the variant Red, now with quantity 5, and the line of the requested pair still has
  quantity 1.
\<close>

theorem C10_quantity_added_to_other_variant_line:
  "findCartItem exTwoLineCartDb 7 (atc_productId exAddThree) (atc_variantId exAddThree)
     = Some exRedLine \<and>
   (case addToCart 7 exAddThree exTwoLineCartDb of
      (Inl e, db') \<Rightarrow> False
    | (Inr item, db') \<Rightarrow>
        item = exRedLine\<lparr>c_quantity := 5\<rparr> \<and>
        cartItemRows db' = [exRedLine\<lparr>c_quantity := 5\<rparr>, exPlainLine] \<and>
        map c_variantId (cartItemRows db') = [Some 5, None] \<and>
        map c_quantity (cartItemRows db') = [5, 1])"
  by code_simp

section \<open>Reversal by cancellation\<close>

lemma booked_variant_row:
  "booked (VariantRow k) (itemStockBookings items)
   = (\<Sum>i\<leftarrow>items. if map_option v_id (i_variant i) = Some k then i_quantity i else 0)"
  by (induction items) (auto simp: itemStockBookings_def itemStockRow_def split: option.splits)

lemma booked_product_row:
  "booked (ProductRow k) (itemStockBookings items)
   = (\<Sum>i\<leftarrow>items. if i_variant i = None \<and> i_productId i = k then i_quantity i else 0)"
  by (induction items) (auto simp: itemStockBookings_def itemStockRow_def split: option.splits)

lemma booked_sold:
  "booked k (itemSoldBookings items)
   = (\<Sum>i\<leftarrow>items. if i_productId i = k then i_quantity i else 0)"
  by (induction items) (auto simp: itemSoldBookings_def)

lemma cancelTransaction_noFaults:
  "\<exists>db'. cancelTransaction noFaults now reason order db = Inr db'
     \<and> productRows db' = productRows (restock (o_items order) db)
     \<and> variantRows db' = variantRows (restock (o_items order) db)
     \<and> orderRows db' =
         map (\<lambda>r. if o_id r = o_id order
                   then (Order.truncate order)
                          \<lparr>o_status := CANCELLED, o_cancelledAt := Some now,
                           o_cancellationReason := Some (case reason of None \<Rightarrow> [] | Some t \<Rightarrow> t)\<rparr>
                   else r) (orderRows db)
     \<and> paymentRows db' =
         (case find (\<lambda>p. pay_paymentStatus p = PAY_COMPLETED) (o_payments order) of
            None \<Rightarrow> paymentRows db
          | Some payment \<Rightarrow>
              map (\<lambda>p. if pay_id p = pay_id payment
                        then payment\<lparr>pay_paymentStatus := PAY_REFUNDED, pay_refundedAt := Some now,
                                     pay_refundReason := Some (case reason of None \<Rightarrow> [] | Some t \<Rightarrow> t)\<rparr>
                        else p)
                (paymentRows db))
     \<and> cartItemRows db' = cartItemRows db \<and> orderItemRows db' = orderItemRows db
     \<and> couponRows db' = couponRows db"
proof (cases "find (\<lambda>p. pay_paymentStatus p = PAY_COMPLETED) (o_payments order)")
  case None
  then show ?thesis
    by (simp add: cancelTransaction_def restoreItems_noFaults
          Let_def saveOrder_def savePayment_def restock_other_tables truncate_update
          reasonOrEmpty_def)
next
  case (Some payment)
  then have "o_payments order \<noteq> []" by (cases "o_payments order") auto
  with Some show ?thesis
    by (simp add: cancelTransaction_def restoreItems_noFaults
          Let_def saveOrder_def savePayment_def restock_other_tables truncate_update
          reasonOrEmpty_def)
qed

text \<open>
  C4: for an order of the user in status PENDING or CONFIRMED, \<open>cancel\<close> (with no
  storage fault) succeeds. The stock of every variant grows by the quantities of the
  items of the order that have this variant; the stock of every product grows by the
  quantities of the items of this product that have no variant; the sold count of every
  product shrinks by the quantities of all its items. The order row becomes CANCELLED
  with \<open>cancelledAt\<close> the time of the call and the reason that was given (the empty string
  when none was given); the first COMPLETED payment of the order, if any, becomes REFUNDED
  with the time of the call and the same reason; nothing else changes. For an order in
  any other status \<open>cancel\<close> fails with "Order cannot be cancelled" and the database is
  unchanged.
\<close>

theorem C4_cancellation_reversal:
  assumes "findOne db orderId (Some userId) = Inr order"
  shows "(o_status order = PENDING \<or> o_status order = CONFIRMED \<longrightarrow>
           (\<exists>order' db'. cancel noFaults now userId orderId reason db = (Inr order', db')
              \<and> variantRows db' =
                  map (\<lambda>v. v\<lparr>v_stock := v_stock v
                         + (\<Sum>i\<leftarrow>o_items order.
                              if map_option v_id (i_variant i) = Some (v_id v)
                              then i_quantity i else 0)\<rparr>)
                    (variantRows db)
              \<and> productRows db' =
                  map (\<lambda>p. p\<lparr>p_stock := p_stock p
                         + (\<Sum>i\<leftarrow>o_items order.
                              if i_variant i = None \<and> i_productId i = p_id p
                              then i_quantity i else 0),
                             p_soldCount := p_soldCount p
                         - (\<Sum>i\<leftarrow>o_items order.
                              if i_productId i = p_id p then i_quantity i else 0)\<rparr>)
                    (productRows db)
              \<and> orderRows db' =
                  map (\<lambda>r. if o_id r = orderId
                            then (Order.truncate order)
                                   \<lparr>o_status := CANCELLED, o_cancelledAt := Some now,
                                    o_cancellationReason :=
                                      Some (case reason of None \<Rightarrow> [] | Some t \<Rightarrow> t)\<rparr>
                            else r)
                    (orderRows db)
              \<and> paymentRows db' =
                  (case find (\<lambda>p. pay_paymentStatus p = PAY_COMPLETED) (o_payments order) of
                     None \<Rightarrow> paymentRows db
                   | Some payment \<Rightarrow>
                       map (\<lambda>p. if pay_id p = pay_id payment
                                 then payment\<lparr>pay_paymentStatus := PAY_REFUNDED,
                                              pay_refundedAt := Some now,
                                              pay_refundReason :=
                                                Some (case reason of None \<Rightarrow> [] | Some t \<Rightarrow> t)\<rparr>
                                 else p)
                         (paymentRows db))
              \<and> cartItemRows db' = cartItemRows db \<and> orderItemRows db' = orderItemRows db
              \<and> couponRows db' = couponRows db
              \<and> o_status order' = CANCELLED \<and> o_cancelledAt order' = Some now
              \<and> o_cancellationReason order' = Some (case reason of None \<Rightarrow> [] | Some t \<Rightarrow> t)))
       \<and> (o_status order \<noteq> PENDING \<and> o_status order \<noteq> CONFIRMED \<longrightarrow>
            cancel fails now userId orderId reason db = (Inl OrderCannotBeCancelled, db))"
proof (intro conjI impI)
  assume st: "o_status order = PENDING \<or> o_status order = CONFIRMED"
  let ?stored = "case reason of None \<Rightarrow> [] | Some t \<Rightarrow> t"
  let ?row = "(Order.truncate order)
                \<lparr>o_status := CANCELLED, o_cancelledAt := Some now,
                 o_cancellationReason := Some ?stored\<rparr>"
  from assms obtain r0 where
    f: "find (\<lambda>r. o_id r = orderId \<and> o_userId r = userId) (orderRows db) = Some r0"
    and o: "order = loadOrder db r0"
    by (auto simp: findOne_Some_iff)
  have oid: "o_id order = orderId" using find_Some_holds[OF f] o by simp
  from cancelTransaction_noFaults[of now reason order db] obtain db' where
    tx: "cancelTransaction noFaults now reason order db = Inr db'"
    and prods: "productRows db' = productRows (restock (o_items order) db)"
    and vars: "variantRows db' = variantRows (restock (o_items order) db)"
    and ords: "orderRows db' = map (\<lambda>r. if o_id r = o_id order then ?row else r) (orderRows db)"
    and pays: "paymentRows db' =
         (case find (\<lambda>p. pay_paymentStatus p = PAY_COMPLETED) (o_payments order) of
            None \<Rightarrow> paymentRows db
          | Some payment \<Rightarrow>
              map (\<lambda>p. if pay_id p = pay_id payment
                        then payment\<lparr>pay_paymentStatus := PAY_REFUNDED, pay_refundedAt := Some now,
                                     pay_refundReason := Some ?stored\<rparr>
                        else p)
                (paymentRows db))"
    and rest: "cartItemRows db' = cartItemRows db" "orderItemRows db' = orderItemRows db"
      "couponRows db' = couponRows db"
    by blast
  from find_weaken[OF f] obtain r1 where
    f1: "find (\<lambda>r. o_id r = orderId) (orderRows db) = Some r1" by blast
  have idrow: "o_id ?row = orderId" using oid by simp
  have "find (\<lambda>r. o_id r = orderId) (orderRows db') = Some ?row"
    unfolding ords oid by (rule find_map_replace[OF f1 idrow])
  then have rb: "findOne db' orderId None = Inr (loadOrder db' ?row)"
    by (simp add: findOne_None_iff)
  have res: "cancel noFaults now userId orderId reason db = (Inr (loadOrder db' ?row), db')"
    using assms st tx rb by (auto simp: cancel_def array_includes_def)
  show "\<exists>order' db'. cancel noFaults now userId orderId reason db = (Inr order', db')
              \<and> variantRows db' =
                  map (\<lambda>v. v\<lparr>v_stock := v_stock v
                         + (\<Sum>i\<leftarrow>o_items order.
                              if map_option v_id (i_variant i) = Some (v_id v)
                              then i_quantity i else 0)\<rparr>)
                    (variantRows db)
              \<and> productRows db' =
                  map (\<lambda>p. p\<lparr>p_stock := p_stock p
                         + (\<Sum>i\<leftarrow>o_items order.
                              if i_variant i = None \<and> i_productId i = p_id p
                              then i_quantity i else 0),
                             p_soldCount := p_soldCount p
                         - (\<Sum>i\<leftarrow>o_items order.
                              if i_productId i = p_id p then i_quantity i else 0)\<rparr>)
                    (productRows db)
              \<and> orderRows db' =
                  map (\<lambda>r. if o_id r = orderId
                            then (Order.truncate order)
                                   \<lparr>o_status := CANCELLED, o_cancelledAt := Some now,
                                    o_cancellationReason :=
                                      Some (case reason of None \<Rightarrow> [] | Some t \<Rightarrow> t)\<rparr>
                            else r)
                    (orderRows db)
              \<and> paymentRows db' =
                  (case find (\<lambda>p. pay_paymentStatus p = PAY_COMPLETED) (o_payments order) of
                     None \<Rightarrow> paymentRows db
                   | Some payment \<Rightarrow>
                       map (\<lambda>p. if pay_id p = pay_id payment
                                 then payment\<lparr>pay_paymentStatus := PAY_REFUNDED,
                                              pay_refundedAt := Some now,
                                              pay_refundReason :=
                                                Some (case reason of None \<Rightarrow> [] | Some t \<Rightarrow> t)\<rparr>
                                 else p)
                         (paymentRows db))
              \<and> cartItemRows db' = cartItemRows db \<and> orderItemRows db' = orderItemRows db
              \<and> couponRows db' = couponRows db
              \<and> o_status order' = CANCELLED \<and> o_cancelledAt order' = Some now
              \<and> o_cancellationReason order' = Some (case reason of None \<Rightarrow> [] | Some t \<Rightarrow> t)"
    apply (rule exI[of _ "loadOrder db' ?row"])
    apply (rule exI[of _ db'])
    using res prods vars ords pays rest oid
    by (simp add: restock_products restock_variants booked_variant_row booked_product_row
          booked_sold)
next
  assume "o_status order \<noteq> PENDING \<and> o_status order \<noteq> CONFIRMED"
  with assms show "cancel fails now userId orderId reason db = (Inl OrderCannotBeCancelled, db)"
    by (simp add: cancel_def array_includes_def)
qed

theorem C4_cancellation_reversal_witness:
  "findOne exPendingDb 1 (Some 7) = Inr (loadOrder exPendingDb exPendingOrder)
   \<and> o_status (loadOrder exPendingDb exPendingOrder) = PENDING
   \<and> map (\<lambda>i. (i_productId i, map_option v_id (i_variant i), i_quantity i))
         (o_items (loadOrder exPendingDb exPendingOrder)) = [(1, Some 5, 2), (1, None, 3)]
   \<and> map v_stock (variantRows exPendingDb) = [2]
   \<and> map p_stock (productRows exPendingDb) = [7]
   \<and> map p_soldCount (productRows exPendingDb) = [5]
   \<and> (\<exists>order' db'. cancel noFaults 20 7 1 (Some ''Changed mind'') exPendingDb = (Inr order', db')
         \<and> map v_stock (variantRows db') = [4]
         \<and> map p_stock (productRows db') = [10]
         \<and> map p_soldCount (productRows db') = [0]
         \<and> map o_status (orderRows db') = [CANCELLED]
         \<and> map o_cancelledAt (orderRows db') = [Some 20]
         \<and> map o_cancellationReason (orderRows db') = [Some ''Changed mind'']
         \<and> map pay_paymentStatus (paymentRows db') = [PAY_REFUNDED]
         \<and> map pay_refundedAt (paymentRows db') = [Some 20]
         \<and> map pay_refundReason (paymentRows db') = [Some ''Changed mind'']
         \<and> o_status order' = CANCELLED \<and> o_cancelledAt order' = Some 20
         \<and> o_cancellationReason order' = Some ''Changed mind'')
   \<and> (\<exists>order' db'. cancel noFaults 20 7 1 None exPendingDb = (Inr order', db')
         \<and> o_status order' = CANCELLED \<and> o_cancellationReason order' = Some [])
   \<and> findOne exShippedDb 1 (Some 7) = Inr (loadOrder exShippedDb exShippedOrder)
   \<and> o_status (loadOrder exShippedDb exShippedOrder) = SHIPPED
   \<and> cancel noFaults 20 7 1 None exShippedDb = (Inl OrderCannotBeCancelled, exShippedDb)"
proof -
  let ?o = "loadOrder exPendingDb exPendingOrder"
  have h: "findOne exPendingDb 1 (Some 7) = Inr ?o" by code_simp
  have st: "o_status ?o = PENDING" by code_simp
  have items: "map (\<lambda>i. (i_productId i, map_option v_id (i_variant i), i_quantity i)) (o_items ?o)
                 = [(1, Some 5, 2), (1, None, 3)]"
    by code_simp
  have before: "map v_stock (variantRows exPendingDb) = [2]"
    "map p_stock (productRows exPendingDb) = [7]"
    "map p_soldCount (productRows exPendingDb) = [5]"
    by code_simp+
  have ev: "map v_stock
         (map (\<lambda>v. v\<lparr>v_stock := v_stock v
                 + (\<Sum>i\<leftarrow>o_items ?o.
                      if map_option v_id (i_variant i) = Some (v_id v) then i_quantity i else 0)\<rparr>)
            (variantRows exPendingDb)) = [4]"
    by code_simp
  have ep: "map p_stock
         (map (\<lambda>p. p\<lparr>p_stock := p_stock p
                 + (\<Sum>i\<leftarrow>o_items ?o.
                      if i_variant i = None \<and> i_productId i = p_id p then i_quantity i else 0),
                     p_soldCount := p_soldCount p
                 - (\<Sum>i\<leftarrow>o_items ?o. if i_productId i = p_id p then i_quantity i else 0)\<rparr>)
            (productRows exPendingDb)) = [10]"
    by code_simp
  have es: "map p_soldCount
         (map (\<lambda>p. p\<lparr>p_stock := p_stock p
                 + (\<Sum>i\<leftarrow>o_items ?o.
                      if i_variant i = None \<and> i_productId i = p_id p then i_quantity i else 0),
                     p_soldCount := p_soldCount p
                 - (\<Sum>i\<leftarrow>o_items ?o. if i_productId i = p_id p then i_quantity i else 0)\<rparr>)
            (productRows exPendingDb)) = [0]"
    by code_simp
  have eo: "map (\<lambda>r. (o_status r, o_cancelledAt r, o_cancellationReason r))
         (map (\<lambda>r. if o_id r = 1
                   then (Order.truncate ?o)
                          \<lparr>o_status := CANCELLED, o_cancelledAt := Some 20,
                           o_cancellationReason :=
                             Some (case Some ''Changed mind'' of None \<Rightarrow> [] | Some t \<Rightarrow> t)\<rparr>
                   else r)
            (orderRows exPendingDb)) = [(CANCELLED, Some 20, Some ''Changed mind'')]"
    by code_simp
  have epay: "map (\<lambda>p. (pay_paymentStatus p, pay_refundedAt p, pay_refundReason p))
         (case find (\<lambda>p. pay_paymentStatus p = PAY_COMPLETED) (o_payments ?o) of
            None \<Rightarrow> paymentRows exPendingDb
          | Some payment \<Rightarrow>
              map (\<lambda>p. if pay_id p = pay_id payment
                        then payment\<lparr>pay_paymentStatus := PAY_REFUNDED,
                                     pay_refundedAt := Some 20,
                                     pay_refundReason :=
                                       Some (case Some ''Changed mind'' of None \<Rightarrow> [] | Some t \<Rightarrow> t)\<rparr>
                        else p)
                (paymentRows exPendingDb))
       = [(PAY_REFUNDED, Some 20, Some ''Changed mind'')]"
    by code_simp
  have hs: "findOne exShippedDb 1 (Some 7) = Inr (loadOrder exShippedDb exShippedOrder)"
    by code_simp
  have sts: "o_status (loadOrder exShippedDb exShippedOrder) = SHIPPED"
    by code_simp
  from C4_cancellation_reversal[OF h, of 20 "Some ''Changed mind''" noFaults] st
  obtain order' db' where
    c: "cancel noFaults 20 7 1 (Some ''Changed mind'') exPendingDb = (Inr order', db')"
    and v: "variantRows db' =
         map (\<lambda>v. v\<lparr>v_stock := v_stock v
                 + (\<Sum>i\<leftarrow>o_items ?o.
                      if map_option v_id (i_variant i) = Some (v_id v) then i_quantity i else 0)\<rparr>)
            (variantRows exPendingDb)"
    and p: "productRows db' =
         map (\<lambda>p. p\<lparr>p_stock := p_stock p
                 + (\<Sum>i\<leftarrow>o_items ?o.
                      if i_variant i = None \<and> i_productId i = p_id p then i_quantity i else 0),
                     p_soldCount := p_soldCount p
                 - (\<Sum>i\<leftarrow>o_items ?o. if i_productId i = p_id p then i_quantity i else 0)\<rparr>)
            (productRows exPendingDb)"
    and ord: "orderRows db' =
         map (\<lambda>r. if o_id r = 1
                   then (Order.truncate ?o)
                          \<lparr>o_status := CANCELLED, o_cancelledAt := Some 20,
                           o_cancellationReason :=
                             Some (case Some ''Changed mind'' of None \<Rightarrow> [] | Some t \<Rightarrow> t)\<rparr>
                   else r)
            (orderRows exPendingDb)"
    and pay: "paymentRows db' =
         (case find (\<lambda>p. pay_paymentStatus p = PAY_COMPLETED) (o_payments ?o) of
            None \<Rightarrow> paymentRows exPendingDb
          | Some payment \<Rightarrow>
              map (\<lambda>p. if pay_id p = pay_id payment
                        then payment\<lparr>pay_paymentStatus := PAY_REFUNDED,
                                     pay_refundedAt := Some 20,
                                     pay_refundReason :=
                                       Some (case Some ''Changed mind'' of None \<Rightarrow> [] | Some t \<Rightarrow> t)\<rparr>
                        else p)
                (paymentRows exPendingDb))"
    and ret: "o_status order' = CANCELLED" "o_cancelledAt order' = Some 20"
      "o_cancellationReason order' = Some (case Some ''Changed mind'' of None \<Rightarrow> [] | Some t \<Rightarrow> t)"
    by blast
  have lv: "map v_stock (variantRows db') = [4]" unfolding v by (rule ev)
  have lp: "map p_stock (productRows db') = [10]" unfolding p by (rule ep)
  have ls: "map p_soldCount (productRows db') = [0]" unfolding p by (rule es)
  have lo0: "map (\<lambda>r. (o_status r, o_cancelledAt r, o_cancellationReason r)) (orderRows db')
               = [(CANCELLED, Some 20, Some ''Changed mind'')]"
    unfolding ord by (rule eo)
  have lpay0: "map (\<lambda>p. (pay_paymentStatus p, pay_refundedAt p, pay_refundReason p)) (paymentRows db')
               = [(PAY_REFUNDED, Some 20, Some ''Changed mind'')]"
    unfolding pay by (rule epay)
  from lo0 have lo: "map o_status (orderRows db') = [CANCELLED]"
    "map o_cancelledAt (orderRows db') = [Some 20]"
    "map o_cancellationReason (orderRows db') = [Some ''Changed mind'']"
    by (auto simp: map_eq_Cons_conv)
  from lpay0 have lpay: "map pay_paymentStatus (paymentRows db') = [PAY_REFUNDED]"
    "map pay_refundedAt (paymentRows db') = [Some 20]"
    "map pay_refundReason (paymentRows db') = [Some ''Changed mind'']"
    by (auto simp: map_eq_Cons_conv)
  from ret have ret': "o_cancellationReason order' = Some ''Changed mind''" by simp
  have a: "\<exists>order' db'. cancel noFaults 20 7 1 (Some ''Changed mind'') exPendingDb = (Inr order', db')
         \<and> map v_stock (variantRows db') = [4]
         \<and> map p_stock (productRows db') = [10]
         \<and> map p_soldCount (productRows db') = [0]
         \<and> map o_status (orderRows db') = [CANCELLED]
         \<and> map o_cancelledAt (orderRows db') = [Some 20]
         \<and> map o_cancellationReason (orderRows db') = [Some ''Changed mind'']
         \<and> map pay_paymentStatus (paymentRows db') = [PAY_REFUNDED]
         \<and> map pay_refundedAt (paymentRows db') = [Some 20]
         \<and> map pay_refundReason (paymentRows db') = [Some ''Changed mind'']
         \<and> o_status order' = CANCELLED \<and> o_cancelledAt order' = Some 20
         \<and> o_cancellationReason order' = Some ''Changed mind''"
    apply (rule exI[of _ order'])
    apply (rule exI[of _ db'])
    using c lv lp ls lo lpay ret(1,2) ret'
    apply (intro conjI)
    apply assumption+
    done
  from C4_cancellation_reversal[OF h, of 20 None noFaults] st
  obtain order2 db2 where
    "cancel noFaults 20 7 1 None exPendingDb = (Inr order2, db2)"
    "o_status order2 = CANCELLED"
    "o_cancellationReason order2 = Some (case None of None \<Rightarrow> [] | Some t \<Rightarrow> t)"
    by blast
  then have b: "\<exists>order' db'. cancel noFaults 20 7 1 None exPendingDb = (Inr order', db')
         \<and> o_status order' = CANCELLED \<and> o_cancellationReason order' = Some []"
    by auto
  from C4_cancellation_reversal[OF hs, of 20 None noFaults] sts
  have d: "cancel noFaults 20 7 1 None exShippedDb = (Inl OrderCannotBeCancelled, exShippedDb)"
    by simp
  from h st items before a b hs sts d show ?thesis
    apply (intro conjI)
    apply assumption+
    done
qed

end
